theory Spec2Isabelle
  imports Main
begin

section \<open>Strings as the component uses them\<close>

text \<open>
  The component \<open>TalkersCaveGame.tsx\<close> works on JavaScript strings, sequences of
  UTF-16 code units. A \<open>char\<close> stands for the code unit of the same number, so a
  \<open>string\<close> is a JavaScript string whose code units lie in \<open>U+0000..U+00FF\<close> (Latin-1
  text); on these the functions below are the ones of the language.

  \<open>isSpace\<close>: the code units that \<open>String.prototype.trim\<close> removes, which are the
  white space and line terminators of the language: tab, line feed, vertical tab, form
  feed, carriage return, space and the no-break space \<open>U+00A0\<close>.
\<close>

definition isSpace :: "char \<Rightarrow> bool" where
  "isSpace c =
     (c \<in> set [CHR 0x09, CHR 0x0A, CHR 0x0B, CHR 0x0C, CHR 0x0D, CHR 0x20, CHR 0xA0])"

definition trim :: "string \<Rightarrow> string" where
  "trim s = rev (dropWhile isSpace (rev (dropWhile isSpace s)))"

text \<open>
  \<open>String.prototype.toLowerCase\<close> maps each upper-case letter to its lower-case
  letter, 32 code units further: \<open>A..Z\<close>, and in Latin-1 \<open>U+00C0..U+00DE\<close> without the
  multiplication sign \<open>U+00D7\<close>. Every other code unit of the range stays.
\<close>

definition upperCaseLetters :: string where
  "upperCaseLetters =
     ''ABCDEFGHIJKLMNOPQRSTUVWXYZ'' @
     [CHR 0xC0, CHR 0xC1, CHR 0xC2, CHR 0xC3, CHR 0xC4, CHR 0xC5, CHR 0xC6, CHR 0xC7,
      CHR 0xC8, CHR 0xC9, CHR 0xCA, CHR 0xCB, CHR 0xCC, CHR 0xCD, CHR 0xCE, CHR 0xCF,
      CHR 0xD0, CHR 0xD1, CHR 0xD2, CHR 0xD3, CHR 0xD4, CHR 0xD5, CHR 0xD6, CHR 0xD8,
      CHR 0xD9, CHR 0xDA, CHR 0xDB, CHR 0xDC, CHR 0xDD, CHR 0xDE]"

definition lowerCaseLetters :: string where
  "lowerCaseLetters =
     ''abcdefghijklmnopqrstuvwxyz'' @
     [CHR 0xE0, CHR 0xE1, CHR 0xE2, CHR 0xE3, CHR 0xE4, CHR 0xE5, CHR 0xE6, CHR 0xE7,
      CHR 0xE8, CHR 0xE9, CHR 0xEA, CHR 0xEB, CHR 0xEC, CHR 0xED, CHR 0xEE, CHR 0xEF,
      CHR 0xF0, CHR 0xF1, CHR 0xF2, CHR 0xF3, CHR 0xF4, CHR 0xF5, CHR 0xF6, CHR 0xF8,
      CHR 0xF9, CHR 0xFA, CHR 0xFB, CHR 0xFC, CHR 0xFD, CHR 0xFE]"

definition toLowerChar :: "char \<Rightarrow> char" where
  "toLowerChar c =
     (case map_of (zip upperCaseLetters lowerCaseLetters) c of
        Some l \<Rightarrow> l
      | None \<Rightarrow> c)"

definition toLowerCase :: "string \<Rightarrow> string" where
  "toLowerCase s = map toLowerChar s"

text \<open>\<open>word.replace(/[.,?!]/g, '')\<close>: every occurrence of the four characters is deleted.\<close>

definition stripPunct :: "string \<Rightarrow> string" where
  "stripPunct s = filter (\<lambda>c. c \<notin> set ''.,?!'') s"

text \<open>\<open>const cleanWord = (word) => word.trim().toLowerCase().replace(/[.,?!]/g, '')\<close>\<close>

definition cleanWord :: "string \<Rightarrow> string" where
  "cleanWord word = stripPunct (toLowerCase (trim word))"

text \<open>
  \<open>s.split(' ')\<close>: the pieces between single space characters, empty pieces kept;
  the empty string gives one empty piece.
\<close>

fun split_space :: "string \<Rightarrow> string list" where
  "split_space [] = [[]]"
| "split_space (c # cs) =
     (if c = CHR '' '' then [] # split_space cs
      else (case split_space cs of
              [] \<Rightarrow> [[c]]
            | w # ws \<Rightarrow> (c # w) # ws))"

text \<open>\<open>t.includes(w)\<close> (named \<open>includes_str\<close> here): \<open>w\<close> occurs in \<open>t\<close> as a contiguous run of characters.\<close>

fun startsWith :: "string \<Rightarrow> string \<Rightarrow> bool" where
  "startsWith t [] = True"
| "startsWith [] (c # w) = False"
| "startsWith (d # t) (c # w) = (d = c \<and> startsWith t w)"

fun includes_str :: "string \<Rightarrow> string \<Rightarrow> bool" where
  "includes_str [] w = (w = [])"
| "includes_str (d # t) w = (startsWith (d # t) w \<or> includes_str t w)"

section \<open>Data model\<close>

datatype step = SCENE | CHARACTER | LOADING_SCRIPT | GAME | PRACTICE_PREP | PRACTICE | COMPLETE

datatype practice_status = IDLE | LISTENING | SUCCESS | TRY_AGAIN

record script_line =
  character :: string
  line :: string

record mistake =
  said :: string
  expected :: string

record practice_word =
  word :: string
  phonemes :: "string list"

section \<open>The two language-model helpers\<close>

text \<open>
  Both helpers wrap a network call in \<open>try { ... } catch\<close>. The call and the parsing of
  its answer are outside the component, so the service is a parameter: what the
  \<open>try\<close> block arrives at, given the request. \<open>AnalyzerThrew\<close> and \<open>PhoneticThrew\<close>
  stand for any exception inside the \<open>try\<close> block (the request failing, an answer
  without text, \<open>JSON.parse\<close> rejecting it).
\<close>

datatype analyzer_reply = AnalyzerThrew | AnalyzerNotArray | AnalyzerArray "mistake list"

datatype phonetic_reply = PhoneticThrew | PhoneticNotStrings | PhoneticArray "string list"

text \<open>
  \<open>analyzeReadingWithAI(spokenText, targetText)\<close>. The first component of the result
  lists the requests sent to the service, the second is the returned Mistake list.
\<close>

definition analyzeReadingWithAI ::
  "(string \<Rightarrow> string \<Rightarrow> analyzer_reply) \<Rightarrow> string \<Rightarrow> string \<Rightarrow> (string \<times> string) list \<times> mistake list" where
  "analyzeReadingWithAI service spokenText targetText =
     (if trim spokenText = []
      then ([], map (\<lambda>w. \<lparr>said = [], expected = w\<rparr>) (split_space targetText))
      else ([(spokenText, targetText)],
            (case service spokenText targetText of
               AnalyzerArray result \<Rightarrow> result
             | AnalyzerNotArray \<Rightarrow> []
             | AnalyzerThrew \<Rightarrow> [])))"

text \<open>\<open>getPhoneticBreakdown(word)\<close>\<close>

definition getPhoneticBreakdown :: "(string \<Rightarrow> phonetic_reply) \<Rightarrow> string \<Rightarrow> string list" where
  "getPhoneticBreakdown service w =
     (case service w of
        PhoneticArray result \<Rightarrow> result
      | PhoneticNotStrings \<Rightarrow> [w]
      | PhoneticThrew \<Rightarrow> [w])"

text \<open>
  \<open>[...new Set(xs)]\<close>: a JavaScript \<open>Set\<close> keeps insertion order and ignores a value
  it already holds (strings compare by content).
\<close>

fun set_add_all :: "'a list \<Rightarrow> 'a list \<Rightarrow> 'a list" where
  "set_add_all acc [] = acc"
| "set_add_all acc (x # xs) = set_add_all (if x \<in> set acc then acc else acc @ [x]) xs"

definition spread_set :: "'a list \<Rightarrow> 'a list" where
  "spread_set xs = set_add_all [] xs"

text \<open>
  \<open>const wordsToPractice = [...new Set(mistakes.map(m => m.expected).filter(Boolean))]\<close>;
  \<open>Boolean\<close> of a string is false exactly for the empty string.
\<close>

definition wordsToPractice :: "mistake list \<Rightarrow> string list" where
  "wordsToPractice ms = spread_set (filter (\<lambda>w. w \<noteq> []) (map expected ms))"


section \<open>The component state\<close>

text \<open>
  \<open>game\<close> holds the \<open>useState\<close> variables and the two \<open>useRef\<close> cells of
  \<open>TalkersCaveGame\<close> that the dialogue and the practice phase use, under the names the
  source gives them, followed by what lives outside the variables but decides what
  the handlers do next:
  \<^item> \<open>hasRecognizer\<close>: the browser has a speech-recognition API, so \<open>speechRecognizer\<close>
    and \<open>practiceRecognizer.current\<close> are not null; \<open>hasVoices\<close>: \<open>window.speechSynthesis\<close>
    exists and \<open>voices\<close> is not empty;
  \<^item> \<open>mistakesId\<close>: the identity of the array held in \<open>mistakes\<close> (every \<open>setMistakes\<close>
    stores a fresh array, and dependency lists compare by identity);
  \<^item> \<open>speechTimeout\<close>: the live 2500 ms timer of \<open>handleResult\<close>, with the
    \<open>fullTranscript\<close> its callback closes over; \<open>startMicTimeout\<close> and \<open>speakTimeout\<close>:
    the live 700 ms timers of the turn effect;
  \<^item> \<open>analyses\<close>: the calls of \<open>processUserTurn\<close> suspended at \<open>await\<close>, each with the
    transcript and the \<open>currentTurn\<close> and \<open>mistakes\<close> its closure holds;
    \<open>utterances\<close>: the \<open>handleAiTurnEnd\<close> callbacks handed to \<open>speak\<close> and not yet
    called, with the \<open>currentTurn\<close> and \<open>mistakes\<close> they close over;
    \<open>preparations\<close>: the calls of \<open>preparePractice\<close> suspended at \<open>await\<close>, with
    their \<open>wordsToPractice\<close>; \<open>successTimeouts\<close>: the live 1500 ms timers of the
    practice result handler, with the \<open>currentPracticeWordIndex\<close> and
    \<open>practiceWords.length\<close> they close over;
  \<^item> four logs of calls that leave the component: \<open>submissions\<close> (each call of
    \<open>analyzeReadingWithAI\<close> by \<open>processUserTurn\<close>, with the turn it was made for),
    \<open>micStarts\<close> (calls of \<open>speechRecognizer.start()\<close>), \<open>practiceStarts\<close> (calls of
    \<open>practiceRecognizer.current.start()\<close>), \<open>completions\<close> (calls of the
    \<open>onComplete\<close> prop).
  The script does not change once the step is \<open>GAME\<close>, so closures over \<open>script\<close> read
  the field.
\<close>

record game =
  step :: step
  selectedCharacter :: "string option"
  script :: "script_line list"
  currentTurn :: nat
  isAiSpeaking :: bool
  isRecognitionActive :: bool
  recognitionError :: "string option"
  matchedWordCount :: nat
  mistakes :: "mistake list"
  isAnalyzing :: bool
  practiceWords :: "practice_word list"
  currentPracticeWordIndex :: nat
  practiceStatus :: practice_status
  practiceTranscript :: string
  hasProcessedTurn :: bool
  speechTimeout :: "string option"
  hasRecognizer :: bool
  hasVoices :: bool
  mistakesId :: nat
  startMicTimeout :: bool
  speakTimeout :: bool
  analyses :: "(string \<times> nat \<times> mistake list) list"
  utterances :: "(nat \<times> mistake list) list"
  preparations :: "string list list"
  successTimeouts :: "(nat \<times> nat) list"
  submissions :: "(nat \<times> string) list"
  micStarts :: nat
  practiceStarts :: nat
  completions :: nat

text \<open>What \<open>recognizer.start()\<close> does: it returns, or throws an exception of some name.\<close>

datatype start_outcome = StartOk | StartThrew string

section \<open>Dialogue: the handlers\<close>

text \<open>
  \<open>processUserTurn(transcript)\<close> up to its \<open>await\<close>. Reading \<open>script[currentTurn].line\<close>
  beyond the script throws, which ends the call after the guard and \<open>isAnalyzing\<close>
  were set.
\<close>

definition processUserTurn :: "string \<Rightarrow> game \<Rightarrow> game" where
  "processUserTurn transcript s =
     (if hasProcessedTurn s then s
      else let s1 = s\<lparr>hasProcessedTurn := True, isAnalyzing := True\<rparr>
           in if currentTurn s < length (script s)
              then s1\<lparr>analyses := analyses s @ [(transcript, currentTurn s, mistakes s)],
                      submissions := submissions s @ [(currentTurn s, transcript)]\<rparr>
              else s1)"

text \<open>
  The rest of \<open>processUserTurn\<close>, run when the analysis has produced \<open>currentMistakes\<close>;
  \<open>turn\<close> and \<open>ms\<close> are the \<open>currentTurn\<close> and \<open>mistakes\<close> of the closure.
  \<open>setCurrentTurn(prev => prev + 1)\<close> counts from the current value.
\<close>

definition processUserTurn_resume :: "nat \<Rightarrow> mistake list \<Rightarrow> mistake list \<Rightarrow> game \<Rightarrow> game" where
  "processUserTurn_resume turn ms currentMistakes s =
     (let allMistakes = ms @ currentMistakes;
          s1 = s\<lparr>isAnalyzing := False, mistakes := allMistakes, mistakesId := mistakesId s + 1\<rparr>
      in if turn < length (script s) - 1
         then s1\<lparr>currentTurn := currentTurn s + 1\<rparr>
         else s1\<lparr>step := (if allMistakes \<noteq> [] then PRACTICE_PREP else COMPLETE)\<rparr>)"

text \<open>
  \<open>handleResult(event)\<close> of the dialogue recognizer; \<open>results\<close> lists
  \<open>event.results[i][0].transcript\<close> for every \<open>i\<close>.
\<close>

definition handleResult :: "nat \<Rightarrow> string list \<Rightarrow> game \<Rightarrow> game" where
  "handleResult resultIndex results s =
     (if hasProcessedTurn s then s
      else let fullTranscript = concat (drop resultIndex results)
           in s\<lparr>matchedWordCount :=
                    length (filter (\<lambda>w. w \<noteq> []) (map cleanWord (split_space fullTranscript))),
                  speechTimeout := Some fullTranscript\<rparr>)"

text \<open>The callback of the 2500 ms timer armed by \<open>handleResult\<close>.\<close>

definition speechTimeout_fires :: "game \<Rightarrow> game" where
  "speechTimeout_fires s =
     (case speechTimeout s of
        None \<Rightarrow> s
      | Some fullTranscript \<Rightarrow>
          (let s1 = s\<lparr>speechTimeout := None\<rparr>
           in if trim fullTranscript \<noteq> [] then processUserTurn (trim fullTranscript) s1 else s1))"

text \<open>\<open>handleError(event)\<close> of the dialogue recognizer; \<open>CHR 0x22\<close> is the double quote.\<close>

definition handleError :: "string \<Rightarrow> game \<Rightarrow> game" where
  "handleError errorType s =
     (let s1 = s\<lparr>speechTimeout := None\<rparr>
      in if errorType \<in> set [''aborted'', ''no-speech'']
         then s1\<lparr>isRecognitionActive := False\<rparr>
         else s1\<lparr>recognitionError :=
                     Some (if errorType = ''not-allowed'' \<or> errorType = ''service-not-allowed''
                           then ''Microphone access denied.''
                           else ''Mic error: '' @ [CHR 0x22] @ errorType @ [CHR 0x22] @ ''.''),
                   isRecognitionActive := False\<rparr>)"

definition handleStart :: "game \<Rightarrow> game" where
  "handleStart s = s\<lparr>isRecognitionActive := True\<rparr>"

definition handleEnd :: "game \<Rightarrow> game" where
  "handleEnd s = s\<lparr>isRecognitionActive := False\<rparr>"

text \<open>\<open>startRecognition()\<close>; the statements before \<open>start()\<close> have run when it throws.\<close>

definition startRecognition :: "start_outcome \<Rightarrow> game \<Rightarrow> game" where
  "startRecognition outcome s =
     (if \<not> hasRecognizer s \<or> isRecognitionActive s then s
      else let s1 = s\<lparr>hasProcessedTurn := False, matchedWordCount := 0,
                       recognitionError := None, micStarts := micStarts s + 1\<rparr>
           in case outcome of
                StartOk \<Rightarrow> s1
              | StartThrew name \<Rightarrow>
                  (if name \<noteq> ''InvalidStateError''
                   then s1\<lparr>recognitionError := Some ''Failed to start microphone.''\<rparr>
                   else s1))"

text \<open>\<open>handleAiTurnEnd\<close>, with the \<open>currentTurn\<close> and \<open>mistakes\<close> of its closure.\<close>

definition handleAiTurnEnd :: "nat \<Rightarrow> mistake list \<Rightarrow> game \<Rightarrow> game" where
  "handleAiTurnEnd turn ms s =
     (if turn < length (script s) - 1
      then s\<lparr>currentTurn := currentTurn s + 1\<rparr>
      else s\<lparr>step := (if ms \<noteq> [] then PRACTICE_PREP else COMPLETE)\<rparr>)"

text \<open>
  The body of the turn effect (the \<open>useEffect\<close> that starts the microphone or the
  synthesized voice for the current turn), after its cleanup has cleared both timers.
\<close>

definition turnEffect :: "game \<Rightarrow> game" where
  "turnEffect s =
     (if step s \<noteq> GAME \<or> script s = [] \<or> currentTurn s \<ge> length (script s)
         \<or> recognitionError s \<noteq> None \<or> isAiSpeaking s
      then s
      else if Some (character (script s ! currentTurn s)) = selectedCharacter s
           then s\<lparr>startMicTimeout := True\<rparr>
           else s\<lparr>speakTimeout := True\<rparr>)"

text \<open>
  \<open>speak(text, onEndCallback)\<close> keeps the callback until the utterance ends (with
  voices: \<open>onend\<close> or \<open>onerror\<close>; without: a timer of \<open>text.length * 50\<close> ms).
\<close>

definition speak :: "nat \<times> mistake list \<Rightarrow> game \<Rightarrow> game" where
  "speak onEndCallback s = s\<lparr>utterances := utterances s @ [onEndCallback]\<rparr>"

section \<open>Practice: the handlers\<close>

text \<open>
  \<open>preparePractice()\<close> up to its \<open>await\<close>, and its rest once every
  \<open>getPhoneticBreakdown\<close> has returned.
\<close>

definition preparePractice :: "game \<Rightarrow> game" where
  "preparePractice s =
     (let ws = wordsToPractice (mistakes s)
      in if length ws = 0 then s\<lparr>completions := completions s + 1\<rparr>
         else s\<lparr>preparations := preparations s @ [ws]\<rparr>)"

definition preparePractice_resume :: "string list \<Rightarrow> (string \<Rightarrow> phonetic_reply) \<Rightarrow> game \<Rightarrow> game" where
  "preparePractice_resume ws service s =
     (let phoneticData = map (\<lambda>w. \<lparr>word = w, phonemes = getPhoneticBreakdown service w\<rparr>) ws
      in s\<lparr>practiceWords := filter (\<lambda>p. length (phonemes p) > 0) phoneticData,
            currentPracticeWordIndex := 0,
            practiceStatus := IDLE,
            practiceTranscript := [],
            step := PRACTICE\<rparr>)"

definition startPracticeRecognition :: "start_outcome \<Rightarrow> game \<Rightarrow> game" where
  "startPracticeRecognition outcome s =
     (if \<not> hasRecognizer s \<or> practiceStatus s \<noteq> IDLE then s
      else let s1 = s\<lparr>practiceStatus := LISTENING, practiceTranscript := [],
                       practiceStarts := practiceStarts s + 1\<rparr>
           in case outcome of
                StartOk \<Rightarrow> s1
              | StartThrew name \<Rightarrow>
                  s1\<lparr>recognitionError := Some ''Mic failed to start. Please try again.'',
                     practiceStatus := IDLE\<rparr>)"

text \<open>\<open>practiceResultHandler.current(event)\<close>; \<open>transcript\<close> is \<open>event.results[0][0].transcript\<close>.\<close>

definition practiceResultHandler :: "string \<Rightarrow> game \<Rightarrow> game" where
  "practiceResultHandler transcript s =
     (let s1 = s\<lparr>practiceTranscript := transcript\<rparr>
      in if length (practiceWords s) > 0 \<and> currentPracticeWordIndex s < length (practiceWords s)
         then let targetWord = word (practiceWords s ! currentPracticeWordIndex s)
              in if includes_str (cleanWord transcript) (cleanWord targetWord)
                 then s1\<lparr>practiceStatus := SUCCESS,
                         successTimeouts := successTimeouts s
                            @ [(currentPracticeWordIndex s, length (practiceWords s))]\<rparr>
                 else s1\<lparr>practiceStatus := TRY_AGAIN\<rparr>
         else s1)"

text \<open>
  The callback of the 1500 ms timer set on success; \<open>idx\<close> and \<open>len\<close> are the
  \<open>currentPracticeWordIndex\<close> and \<open>practiceWords.length\<close> of its closure.
\<close>

definition successTimeout_fires :: "nat \<Rightarrow> nat \<Rightarrow> game \<Rightarrow> game" where
  "successTimeout_fires idx len s =
     (if idx < len - 1
      then s\<lparr>currentPracticeWordIndex := currentPracticeWordIndex s + 1,
             practiceStatus := IDLE, practiceTranscript := []\<rparr>
      else s\<lparr>completions := completions s + 1\<rparr>)"

definition practice_handleError :: "string \<Rightarrow> game \<Rightarrow> game" where
  "practice_handleError errorType s =
     (let s1 = (if errorType \<noteq> ''no-speech'' \<and> errorType \<noteq> ''aborted''
                then s\<lparr>recognitionError :=
                         Some (''Mic error: '' @ [CHR 0x22] @ errorType @ [CHR 0x22] @ ''.'')\<rparr>
                else s)
      in s1\<lparr>practiceStatus := IDLE\<rparr>)"

definition practice_handleEnd :: "game \<Rightarrow> game" where
  "practice_handleEnd s =
     s\<lparr>practiceStatus := (if practiceStatus s = LISTENING then IDLE else practiceStatus s)\<rparr>"

section \<open>Events and re-rendering\<close>

text \<open>
  One event is one callback that the browser, a timer or a pending promise runs:
  the component handles them one at a time. \<open>AnalysisDone n r\<close> resumes the \<open>n\<close>-th
  suspended \<open>processUserTurn\<close> with the service's answer \<open>r\<close>; \<open>PhoneticsDone f\<close> resumes
  the oldest suspended \<open>preparePractice\<close>, \<open>f\<close> giving the service's answer for each word;
  \<open>ListenTrigger\<close> is the click that calls \<open>startPracticeRecognition\<close>.
\<close>

datatype event =
    StartMicTimeout start_outcome
  | SpeakTimeout
  | UtteranceStart
  | UtteranceEnd
  | RecognizerStart
  | RecognizerEnd
  | RecognizerError string
  | RecognizerResult nat "string list"
  | SpeechTimeout
  | AnalysisDone nat analyzer_reply
  | PhoneticsDone "string \<Rightarrow> phonetic_reply"
  | ListenTrigger start_outcome
  | PracticeResult string
  | PracticeError string
  | PracticeEnd
  | SuccessTimeout

definition remove_nth :: "nat \<Rightarrow> 'a list \<Rightarrow> 'a list" where
  "remove_nth n xs = take n xs @ drop (Suc n) xs"

text \<open>
  The dialogue recognizer's listeners are attached while the step is \<open>GAME\<close>, the
  practice recognizer's for the component's lifetime; both need a recognizer.
\<close>

fun handle :: "event \<Rightarrow> game \<Rightarrow> game" where
  "handle (StartMicTimeout outcome) s =
     (if startMicTimeout s then startRecognition outcome (s\<lparr>startMicTimeout := False\<rparr>) else s)"
| "handle SpeakTimeout s =
     (if speakTimeout s then speak (currentTurn s, mistakes s) (s\<lparr>speakTimeout := False\<rparr>) else s)"
| "handle UtteranceStart s =
     (if hasVoices s \<and> utterances s \<noteq> [] then s\<lparr>isAiSpeaking := True\<rparr> else s)"
| "handle UtteranceEnd s =
     (case utterances s of
        [] \<Rightarrow> s
      | (turn, ms) # rest \<Rightarrow>
          handleAiTurnEnd turn ms
            (if hasVoices s then s\<lparr>utterances := rest, isAiSpeaking := False\<rparr>
             else s\<lparr>utterances := rest\<rparr>))"
| "handle RecognizerStart s = (if hasRecognizer s \<and> step s = GAME then handleStart s else s)"
| "handle RecognizerEnd s = (if hasRecognizer s \<and> step s = GAME then handleEnd s else s)"
| "handle (RecognizerError errorType) s =
     (if hasRecognizer s \<and> step s = GAME then handleError errorType s else s)"
| "handle (RecognizerResult resultIndex results) s =
     (if hasRecognizer s \<and> step s = GAME then handleResult resultIndex results s else s)"
| "handle SpeechTimeout s = speechTimeout_fires s"
| "handle (AnalysisDone n reply) s =
     (if n < length (analyses s)
      then (case analyses s ! n of
              (transcript, turn, ms) \<Rightarrow>
                processUserTurn_resume turn ms
                  (snd (analyzeReadingWithAI (\<lambda>_ _. reply) transcript (line (script s ! turn))))
                  (s\<lparr>analyses := remove_nth n (analyses s)\<rparr>))
      else s)"
| "handle (PhoneticsDone service) s =
     (case preparations s of
        [] \<Rightarrow> s
      | ws # rest \<Rightarrow> preparePractice_resume ws service (s\<lparr>preparations := rest\<rparr>))"
| "handle (ListenTrigger outcome) s = startPracticeRecognition outcome s"
| "handle (PracticeResult transcript) s =
     (if hasRecognizer s then practiceResultHandler transcript s else s)"
| "handle (PracticeError errorType) s =
     (if hasRecognizer s then practice_handleError errorType s else s)"
| "handle PracticeEnd s = (if hasRecognizer s then practice_handleEnd s else s)"
| "handle SuccessTimeout s =
     (case successTimeouts s of
        [] \<Rightarrow> s
      | (idx, len) # rest \<Rightarrow> successTimeout_fires idx len (s\<lparr>successTimeouts := rest\<rparr>))"

text \<open>
  After a handler, React renders again and re-runs each effect whose dependency list
  changed: first the effect's cleanup, then its body.
  \<^item> The capture effect (dependencies \<open>speechRecognizer\<close>, \<open>step\<close>, \<open>processUserTurn\<close>, the
    last one depending on \<open>script\<close>, \<open>currentTurn\<close>, \<open>mistakes\<close>): its cleanup clears
    \<open>speechTimeout\<close>; the cleanup exists when the previous run attached the listeners,
    that is with a recognizer and in step \<open>GAME\<close>.
  \<^item> The turn effect (dependencies \<open>step\<close>, \<open>script\<close>, \<open>currentTurn\<close>, \<open>selectedCharacter\<close>,
    \<open>speak\<close> (depending on \<open>voices\<close>), \<open>speechRecognizer\<close>, \<open>recognitionError\<close>,
    \<open>isAiSpeaking\<close>, \<open>mistakes\<close>, \<open>startRecognition\<close> (depending on
    \<open>isRecognitionActive\<close>)): its cleanup clears its 700 ms timer; a run that returned
    early armed no timer.
  \<^item> The practice-preparation effect (dependencies \<open>step\<close>, \<open>mistakes\<close>, \<open>onComplete\<close>):
    it calls \<open>preparePractice\<close> when the step is \<open>PRACTICE_PREP\<close>.
\<close>

definition captureEffect_deps :: "game \<Rightarrow> step \<times> script_line list \<times> nat \<times> nat" where
  "captureEffect_deps s = (step s, script s, currentTurn s, mistakesId s)"

definition turnEffect_deps ::
  "game \<Rightarrow> step \<times> script_line list \<times> nat \<times> string option \<times> bool \<times> string option \<times> bool \<times> nat \<times> bool" where
  "turnEffect_deps s =
     (step s, script s, currentTurn s, selectedCharacter s, hasVoices s, recognitionError s,
      isAiSpeaking s, mistakesId s, isRecognitionActive s)"

definition practicePrepEffect_deps :: "game \<Rightarrow> step \<times> nat" where
  "practicePrepEffect_deps s = (step s, mistakesId s)"

definition rerender :: "game \<Rightarrow> game \<Rightarrow> game" where
  "rerender old new =
     (let s1 = (if captureEffect_deps new \<noteq> captureEffect_deps old
                   \<and> hasRecognizer old \<and> step old = GAME
                then new\<lparr>speechTimeout := None\<rparr> else new);
          s2 = (if turnEffect_deps new \<noteq> turnEffect_deps old
                then turnEffect (s1\<lparr>startMicTimeout := False, speakTimeout := False\<rparr>) else s1)
      in if practicePrepEffect_deps new \<noteq> practicePrepEffect_deps old \<and> step new = PRACTICE_PREP
         then preparePractice s2 else s2)"

definition fire :: "event \<Rightarrow> game \<Rightarrow> game" where
  "fire ev s = rerender s (handle ev s)"

fun run :: "event list \<Rightarrow> game \<Rightarrow> game" where
  "run [] s = s"
| "run (ev # evs) s = run evs (fire ev s)"

text \<open>
  The component when \<open>generateScript\<close> has stored the script and set the step to
  \<open>GAME\<close>, \<open>handleCharacterSelect\<close> having emptied \<open>mistakes\<close> and stored the learner's
  character: every other variable has its initial value, and the turn effect has run.
  Without a recognizer the component sets \<open>recognitionError\<close> at once.
\<close>

definition newGame :: "script_line list \<Rightarrow> string \<Rightarrow> bool \<Rightarrow> bool \<Rightarrow> game" where
  "newGame scr who recognizer voices =
     turnEffect
       \<lparr>step = GAME, selectedCharacter = Some who, script = scr, currentTurn = 0,
        isAiSpeaking = False, isRecognitionActive = False,
        recognitionError =
          (if recognizer then None
           else Some ''Speech recognition is not supported in this browser. Try Chrome or Edge.''),
        matchedWordCount = 0, mistakes = [], isAnalyzing = False, practiceWords = [],
        currentPracticeWordIndex = 0, practiceStatus = IDLE, practiceTranscript = [],
        hasProcessedTurn = False, speechTimeout = None, hasRecognizer = recognizer,
        hasVoices = voices, mistakesId = 0, startMicTimeout = False, speakTimeout = False,
        analyses = [], utterances = [], preparations = [], successTimeouts = [],
        submissions = [], micStarts = 0, practiceStarts = 0, completions = 0\<rparr>"

section \<open>Auxiliary definitions for the statements\<close>

text \<open>\<open>ws.join(' ')\<close>: the line made of the words \<open>ws\<close>, one space between neighbours.\<close>

fun join_space :: "string list \<Rightarrow> string" where
  "join_space [] = []"
| "join_space [w] = w"
| "join_space (w # v # ws) = w @ '' '' @ join_space (v # ws)"

text \<open>
  A component in the \<open>PRACTICE\<close> step drilling the words \<open>ws\<close>, each with itself as its
  only syllable: what \<open>preparePractice\<close> leaves when the decomposition service answers
  every word \<open>w\<close> with \<open>[w]\<close>.
\<close>

definition practising :: "string list \<Rightarrow> game" where
  "practising ws =
     preparePractice_resume ws (\<lambda>w. PhoneticArray [w])
       ((newGame [] [] True True)\<lparr>step := PRACTICE_PREP\<rparr>)"

text \<open>
  A two-line script, the synthesized Shopkeeper first and the learner as Customer,
  in a browser with a recognizer and voices.
\<close>

definition demo_script :: "script_line list" where
  "demo_script =
     [\<lparr>character = ''Shopkeeper'', line = ''Can I help you''\<rparr>,
      \<lparr>character = ''Customer'', line = ''Yes please''\<rparr>]"

definition demo_game :: game where
  "demo_game = newGame demo_script ''Customer'' True True"

text \<open>
  The Shopkeeper's line is spoken, the microphone starts for the learner's turn (the
  turn effect runs again when the recognizer reports its start, and its timer then
  finds the recognizer active), one result arrives, and 2500 ms of silence later the
  turn is submitted.
\<close>

definition first_submission :: "event list" where
  "first_submission =
     [SpeakTimeout, UtteranceStart, UtteranceEnd,
      StartMicTimeout StartOk, RecognizerStart, StartMicTimeout StartOk,
      RecognizerResult 0 [''yes please''], SpeechTimeout]"

text \<open>
  The values of \<open>xs\<close> at the positions where a value occurs for the first time, in the
  order of these positions: what ``deduplicated, in first-occurrence order'' means.
\<close>

definition first_occurrences :: "'a list \<Rightarrow> 'a list" where
  "first_occurrences xs = map (\<lambda>i. xs ! i) (filter (\<lambda>i. xs ! i \<notin> set (take i xs)) [0..<length xs])"

text \<open>
  Mistakes with a repeated expected word, an inserted word (empty \<open>expected\<close>) and a
  second expected word.
\<close>

definition demo_mistakes :: "mistake list" where
  "demo_mistakes =
     [\<lparr>said = [], expected = ''please''\<rparr>, \<lparr>said = ''um'', expected = []\<rparr>,
      \<lparr>said = [], expected = ''help''\<rparr>, \<lparr>said = ''pleas'', expected = ''please''\<rparr>]"

text \<open>
  A component in \<open>PRACTICE_PREP\<close> whose only Mistake is an inserted word, and a
  decomposition service that answers every word with the empty array.
\<close>

definition insertion_only :: game where
  "insertion_only = demo_game\<lparr>step := PRACTICE_PREP, mistakes := [\<lparr>said = ''um'', expected = []\<rparr>]\<rparr>"

definition silent_service :: "string \<Rightarrow> phonetic_reply" where
  "silent_service w = PhoneticArray []"

text \<open>
  One failed practice attempt: the learner triggers listening, the recognizer hears
  \<open>tugeda\<close> for the word \<open>together\<close>, and the capture session ends.
\<close>

definition failed_attempt :: "event list" where
  "failed_attempt = [ListenTrigger StartOk, PracticeResult ''tugeda'', PracticeEnd]"

text \<open>
  The demonstration run continued while the analysis of the submitted turn is still
  pending: the recognizer, stopped by \<open>processUserTurn\<close>, reports its end; the turn effect
  runs again and 700 ms later starts the microphone; a result arrives, and 2500 ms of
  silence later the timer fires.
\<close>

definition double_submission :: "event list" where
  "double_submission =
     first_submission @
     [RecognizerEnd, StartMicTimeout StartOk, RecognizerStart, StartMicTimeout StartOk,
      RecognizerResult 0 [''yes please''], SpeechTimeout]"

text \<open>
  Both pending analyses of that run then answer: the first reports the missed word
  \<open>please\<close>, the second reports nothing.
\<close>

definition late_analyses :: "event list" where
  "late_analyses =
     double_submission @
     [AnalysisDone 0 (AnalyzerArray [\<lparr>said = [], expected = ''please''\<rparr>]),
      AnalysisDone 0 (AnalyzerArray [])]"

text \<open>
  An event that reports no mistake: every event except an analysis that answers with
  a non-empty array.
\<close>

fun reports_no_mistake :: "event \<Rightarrow> bool" where
  "reports_no_mistake (AnalysisDone n (AnalyzerArray ms)) = (ms = [])"
| "reports_no_mistake ev = True"

text \<open>
  No mistake has been recorded or is held by a pending closure, no submitted transcript
  is blank, and the component is still in the dialogue or has completed.
\<close>

definition all_correct :: "game \<Rightarrow> bool" where
  "all_correct s \<longleftrightarrow>
     mistakes s = [] \<and> (step s = GAME \<or> step s = COMPLETE) \<and> preparations s = []
     \<and> list_all (\<lambda>(transcript, turn, ms). ms = [] \<and> trim transcript \<noteq> []) (analyses s)
     \<and> list_all (\<lambda>(turn, ms). ms = []) (utterances s)"

text \<open>
  The scenario of eight turns: the synthesized Shopkeeper speaks the even lines, the
  learner as Customer the odd ones. A synthesized turn is the 700 ms timer, the start and
  the end of the utterance; a correct learner's turn is the start of the microphone, one
  result, the silence timer, the end of the stopped recognizer and an empty analysis.
\<close>

definition shop_script :: "script_line list" where
  "shop_script =
     [\<lparr>character = ''Shopkeeper'', line = ''Can I help you''\<rparr>,
      \<lparr>character = ''Customer'', line = ''Yes please''\<rparr>,
      \<lparr>character = ''Shopkeeper'', line = ''What do you need''\<rparr>,
      \<lparr>character = ''Customer'', line = ''I need milk''\<rparr>,
      \<lparr>character = ''Shopkeeper'', line = ''Here you are''\<rparr>,
      \<lparr>character = ''Customer'', line = ''Thank you''\<rparr>,
      \<lparr>character = ''Shopkeeper'', line = ''Anything else''\<rparr>,
      \<lparr>character = ''Customer'', line = ''No thanks''\<rparr>]"

definition synthesized_turn :: "event list" where
  "synthesized_turn = [SpeakTimeout, UtteranceStart, UtteranceEnd]"

definition correct_turn :: "string \<Rightarrow> event list" where
  "correct_turn spoken =
     [StartMicTimeout StartOk, RecognizerStart, StartMicTimeout StartOk,
      RecognizerResult 0 [spoken], SpeechTimeout, RecognizerEnd,
      AnalysisDone 0 (AnalyzerArray [])]"

definition all_correct_run :: "event list" where
  "all_correct_run =
     synthesized_turn @ correct_turn ''Yes please'' @
     synthesized_turn @ correct_turn ''I need milk'' @
     synthesized_turn @ correct_turn ''Thank you'' @
     synthesized_turn @ correct_turn ''No thanks''"

text \<open>The demonstration run up to the moment the recognizer listens to the learner.\<close>

definition listening :: game where
  "listening =
     run [SpeakTimeout, UtteranceStart, UtteranceEnd, StartMicTimeout StartOk, RecognizerStart]
       demo_game"

text \<open>
  While an error is shown the timer that starts the microphone is not armed
  (\<open>timers_ok\<close>); \<open>blocked\<close>: an error is shown and that timer is not armed.
\<close>

definition timers_ok :: "game \<Rightarrow> bool" where
  "timers_ok s \<longleftrightarrow> (recognitionError s \<noteq> None \<longrightarrow> \<not> startMicTimeout s)"

definition blocked :: "game \<Rightarrow> bool" where
  "blocked s \<longleftrightarrow> recognitionError s \<noteq> None \<and> \<not> startMicTimeout s"

section \<open>String functions\<close>

lemma letters_zip:
  "zip upperCaseLetters lowerCaseLetters =
     [(CHR ''A'', CHR ''a''), (CHR ''B'', CHR ''b''), (CHR ''C'', CHR ''c''),
      (CHR ''D'', CHR ''d''), (CHR ''E'', CHR ''e''), (CHR ''F'', CHR ''f''),
      (CHR ''G'', CHR ''g''), (CHR ''H'', CHR ''h''), (CHR ''I'', CHR ''i''),
      (CHR ''J'', CHR ''j''), (CHR ''K'', CHR ''k''), (CHR ''L'', CHR ''l''),
      (CHR ''M'', CHR ''m''), (CHR ''N'', CHR ''n''), (CHR ''O'', CHR ''o''),
      (CHR ''P'', CHR ''p''), (CHR ''Q'', CHR ''q''), (CHR ''R'', CHR ''r''),
      (CHR ''S'', CHR ''s''), (CHR ''T'', CHR ''t''), (CHR ''U'', CHR ''u''),
      (CHR ''V'', CHR ''v''), (CHR ''W'', CHR ''w''), (CHR ''X'', CHR ''x''),
      (CHR ''Y'', CHR ''y''), (CHR ''Z'', CHR ''z''), (CHR 0xC0, CHR 0xE0),
      (CHR 0xC1, CHR 0xE1), (CHR 0xC2, CHR 0xE2), (CHR 0xC3, CHR 0xE3),
      (CHR 0xC4, CHR 0xE4), (CHR 0xC5, CHR 0xE5), (CHR 0xC6, CHR 0xE6),
      (CHR 0xC7, CHR 0xE7), (CHR 0xC8, CHR 0xE8), (CHR 0xC9, CHR 0xE9),
      (CHR 0xCA, CHR 0xEA), (CHR 0xCB, CHR 0xEB), (CHR 0xCC, CHR 0xEC),
      (CHR 0xCD, CHR 0xED), (CHR 0xCE, CHR 0xEE), (CHR 0xCF, CHR 0xEF),
      (CHR 0xD0, CHR 0xF0), (CHR 0xD1, CHR 0xF1), (CHR 0xD2, CHR 0xF2),
      (CHR 0xD3, CHR 0xF3), (CHR 0xD4, CHR 0xF4), (CHR 0xD5, CHR 0xF5),
      (CHR 0xD6, CHR 0xF6), (CHR 0xD8, CHR 0xF8), (CHR 0xD9, CHR 0xF9),
      (CHR 0xDA, CHR 0xFA), (CHR 0xDB, CHR 0xFB), (CHR 0xDC, CHR 0xFC),
      (CHR 0xDD, CHR 0xFD), (CHR 0xDE, CHR 0xFE)]"
  by (simp add: upperCaseLetters_def lowerCaseLetters_def)

text \<open>The two tables and the white space by the numbers of their code units.\<close>

lemma upper_codes:
  "map of_char upperCaseLetters = ([65..<91] @ [192..<215] @ [216..<223] :: nat list)"
  by (simp add: upperCaseLetters_def upt_rec)

lemma lower_codes:
  "map of_char lowerCaseLetters = map (\<lambda>n. n + 32) ([65..<91] @ [192..<215] @ [216..<223] :: nat list)"
  by (simp add: lowerCaseLetters_def upt_rec)

lemma space_codes:
  "map of_char [CHR 0x09, CHR 0x0A, CHR 0x0B, CHR 0x0C, CHR 0x0D, CHR 0x20, CHR 0xA0]
     = [9, 10, 11, 12, 13, 32, 160 :: nat]"
  by simp


lemma mem_by_code: "c \<in> set cs \<longleftrightarrow> (of_char c :: nat) \<in> set (map of_char cs)"
proof
  assume "c \<in> set cs"
  then show "(of_char c :: nat) \<in> set (map of_char cs)" by simp
next
  assume "(of_char c :: nat) \<in> set (map of_char cs)"
  then obtain d where d: "d \<in> set cs" "(of_char c :: nat) = of_char d" by auto
  from d(2) have "char_of (of_char c :: nat) = char_of (of_char d :: nat)" by (rule arg_cong)
  then have "c = d" by (simp only: char_of_char)
  with d(1) show "c \<in> set cs" by simp
qed

lemma isSpace_code: "isSpace c \<longleftrightarrow> (of_char c :: nat) \<in> set [9, 10, 11, 12, 13, 32, 160]"
  unfolding isSpace_def by (subst mem_by_code) (simp only: space_codes)

lemma upper_code:
  "c \<in> set upperCaseLetters \<longleftrightarrow>
     (65 \<le> (of_char c :: nat) \<and> (of_char c :: nat) \<le> 90)
     \<or> (192 \<le> (of_char c :: nat) \<and> (of_char c :: nat) \<le> 222 \<and> (of_char c :: nat) \<noteq> 215)"
  by (subst mem_by_code)
     (simp only: upper_codes set_append set_upt Un_iff atLeastLessThan_iff, arith)

lemma lower_from_upper:
  "lowerCaseLetters = map (\<lambda>c. char_of (of_char c + (32::nat))) upperCaseLetters"
proof -
  have "map char_of (map of_char lowerCaseLetters :: nat list)
      = map char_of (map (\<lambda>n. n + 32) (map of_char upperCaseLetters :: nat list))"
    by (simp only: lower_codes upper_codes)
  then show ?thesis by (simp add: comp_def)
qed

lemma toLowerChar_code:
  "toLowerChar c =
     (if (65 \<le> (of_char c :: nat) \<and> (of_char c :: nat) \<le> 90)
         \<or> (192 \<le> (of_char c :: nat) \<and> (of_char c :: nat) \<le> 222 \<and> (of_char c :: nat) \<noteq> 215)
      then char_of (of_char c + (32::nat)) else c)"
proof -
  have "map_of (zip upperCaseLetters lowerCaseLetters) c
      = (if c \<in> set upperCaseLetters then Some (char_of (of_char c + (32::nat))) else None)"
    by (subst lower_from_upper) (simp only: map_of_zip_map)
  then show ?thesis by (simp add: toLowerChar_def upper_code)
qed

text \<open>
  \<open>trim\<close> removes white space at both ends and nothing else: what is left neither
  starts nor ends with white space.
\<close>

lemma dropWhile_id: "xs = [] \<or> \<not> P (hd xs) \<Longrightarrow> dropWhile P xs = xs"
  by (cases xs) auto

lemma trim_trim: "trim (trim s) = trim s"
proof -
  let ?a = "dropWhile isSpace s"
  let ?b = "dropWhile isSpace (rev ?a)"
  have b_hd: "?b = [] \<or> \<not> isSpace (hd ?b)"
    using hd_dropWhile [of isSpace "rev ?a"] by blast
  have a_hd: "?a = [] \<or> \<not> isSpace (hd ?a)"
    using hd_dropWhile [of isSpace s] by blast
  have b_last: "?b = [] \<or> \<not> isSpace (last ?b)"
  proof (cases "?b = []")
    case True
    then show ?thesis by simp
  next
    case False
    have "rev ?a = takeWhile isSpace (rev ?a) @ ?b" by simp
    then have "last (rev ?a) = last ?b"
      using False by (metis last_appendR)
    moreover have ne: "?a \<noteq> []"
    proof
      assume e: "?a = []"
      have "?b = dropWhile isSpace (rev [])" by (simp only: e)
      then have "?b = []" by (simp only: rev.simps dropWhile.simps)
      with False show False by contradiction
    qed
    ultimately have l: "last ?b = hd ?a" by (simp add: last_rev)
    from a_hd ne have "\<not> isSpace (hd ?a)" by blast
    then have "\<not> isSpace (last ?b)" unfolding l .
    then show ?thesis ..
  qed
  have "dropWhile isSpace (rev ?b) = rev ?b"
    using b_last by (intro dropWhile_id) (auto simp: hd_rev)
  moreover have "dropWhile isSpace ?b = ?b"
    using b_hd by (intro dropWhile_id)
  ultimately show ?thesis by (simp add: trim_def)
qed

lemma trim_decomposition:
  "\<exists>l r. x = l @ trim x @ r \<and> list_all isSpace l \<and> list_all isSpace r"
proof -
  let ?a = "dropWhile isSpace x"
  let ?b = "dropWhile isSpace (rev ?a)"
  let ?l = "takeWhile isSpace x"
  let ?r = "rev (takeWhile isSpace (rev ?a))"
  have "rev ?a = takeWhile isSpace (rev ?a) @ ?b" by simp
  then have "rev (rev ?a) = rev (takeWhile isSpace (rev ?a) @ ?b)" by (rule arg_cong)
  then have a: "?a = rev ?b @ ?r" by (simp only: rev_rev_ident rev_append)
  have "x = ?l @ ?a" by simp
  with a have "x = ?l @ trim x @ ?r" by (simp only: trim_def)
  moreover have "list_all isSpace ?l"
    by (auto simp: list_all_iff dest: set_takeWhileD)
  moreover have "list_all isSpace ?r"
    by (auto simp: list_all_iff dest: set_takeWhileD)
  ultimately show ?thesis by blast
qed

lemma trim_ends: "trim x = [] \<or> \<not> isSpace (hd (trim x)) \<and> \<not> isSpace (last (trim x))"
proof (cases "trim x = []")
  case True
  then show ?thesis ..
next
  case False
  let ?a = "dropWhile isSpace x"
  let ?b = "dropWhile isSpace (rev ?a)"
  have t: "trim x = rev ?b" by (simp only: trim_def)
  with False have ne: "?b \<noteq> []" by (simp only: rev_is_Nil_conv not_False_eq_True)
  then have h: "\<not> isSpace (hd ?b)" by (rule hd_dropWhile)
  have a_ne: "?a \<noteq> []"
  proof
    assume e: "?a = []"
    have "?b = dropWhile isSpace (rev [])" by (simp only: e)
    then have "?b = []" by (simp only: rev.simps dropWhile.simps)
    with ne show False by contradiction
  qed
  then have a_hd: "\<not> isSpace (hd ?a)" by (rule hd_dropWhile)
  have "rev ?a = takeWhile isSpace (rev ?a) @ ?b" by simp
  then have "last (rev ?a) = last ?b"
    using ne by (metis last_appendR)
  with a_ne have l: "last ?b = hd ?a" by (simp add: last_rev)
  from a_hd have "\<not> isSpace (last ?b)" unfolding l .
  then have "\<not> isSpace (hd (trim x))"
    by (simp add: t hd_rev)
  moreover from h have "\<not> isSpace (last (trim x))"
    by (simp add: t last_rev)
  ultimately show ?thesis by blast
qed

lemma startsWith_iff: "startsWith t w \<longleftrightarrow> (\<exists>post. t = w @ post)"
  by (induction t w rule: startsWith.induct) auto

lemma includes_iff: "includes_str t w \<longleftrightarrow> (\<exists>pre post. t = pre @ w @ post)"
proof (induction t)
  case Nil
  then show ?case by simp
next
  case (Cons d t)
  show ?case
  proof
    assume "includes_str (d # t) w"
    then consider "startsWith (d # t) w" | "includes_str t w" by auto
    then show "\<exists>pre post. d # t = pre @ w @ post"
    proof cases
      case 1
      then obtain post where "d # t = w @ post" by (auto simp: startsWith_iff)
      then have "d # t = [] @ w @ post" by simp
      then show ?thesis by blast
    next
      case 2
      then obtain pre post where "t = pre @ w @ post" using Cons.IH by blast
      then have "d # t = (d # pre) @ w @ post" by simp
      then show ?thesis by blast
    qed
  next
    assume "\<exists>pre post. d # t = pre @ w @ post"
    then obtain pre post where e: "d # t = pre @ w @ post" by blast
    show "includes_str (d # t) w"
    proof (cases pre)
      case Nil
      with e have "startsWith (d # t) w" by (auto simp: startsWith_iff)
      then show ?thesis by simp
    next
      case (Cons p pre')
      with e have "t = pre' @ w @ post" by simp
      then have "includes_str t w" using Cons.IH by blast
      then show ?thesis by simp
    qed
  qed
qed

lemma split_space_nonempty: "split_space cs \<noteq> []"
  by (induction cs) (auto split: list.splits)

lemma split_space_no_space: "CHR '' '' \<notin> set w \<Longrightarrow> split_space (w @ CHR '' '' # rest) = w # split_space rest"
  by (induction w) (auto split: list.splits)

lemma split_space_single: "CHR '' '' \<notin> set w \<Longrightarrow> split_space w = [w]"
  by (induction w) (auto split: list.splits)

lemma split_space_join:
  "ws \<noteq> [] \<Longrightarrow> list_all (\<lambda>w. CHR '' '' \<notin> set w) ws \<Longrightarrow> split_space (join_space ws) = ws"
  by (induction ws rule: join_space.induct) (auto simp: split_space_single split_space_no_space)

text \<open>
  \<open>split(' ')\<close> cuts at every space and nowhere else: no piece holds a space, and the
  pieces joined by single spaces give the text back.
\<close>

lemma join_space_Cons: "join_space ((c # w) # ws) = c # join_space (w # ws)"
  by (cases ws) simp_all

lemma join_split_space: "join_space (split_space target) = target"
proof (induction target)
  case Nil
  show ?case by simp
next
  case (Cons c cs)
  obtain w ws where s: "split_space cs = w # ws"
    using split_space_nonempty [of cs] by (cases "split_space cs") auto
  with Cons show ?case by (simp add: join_space_Cons)
qed

lemma split_space_pieces: "list_all (\<lambda>p. CHR '' '' \<notin> set p) (split_space target)"
  by (induction target) (auto split: list.splits)

lemma cleanWord_sentence: "cleanWord ''I think it's two.'' = ''i think it's two''"
  by (simp add: cleanWord_def stripPunct_def toLowerCase_def toLowerChar_def trim_def isSpace_def
      letters_zip)

lemma cleanWord_two: "cleanWord ''two'' = ''two''"
  by (simp add: cleanWord_def stripPunct_def toLowerCase_def toLowerChar_def trim_def isSpace_def
      letters_zip)

lemma cleanWord_three: "cleanWord ''three'' = ''three''"
  by (simp add: cleanWord_def stripPunct_def toLowerCase_def toLowerChar_def trim_def isSpace_def
      letters_zip)


lemma cleanWord_padded: "cleanWord '' Two? '' = ''two''"
  by (simp add: cleanWord_def stripPunct_def toLowerCase_def toLowerChar_def trim_def isSpace_def
      letters_zip)

lemma cleanWord_shout: "cleanWord ''it's TWO!'' = ''it's two''"
  by (simp add: cleanWord_def stripPunct_def toLowerCase_def toLowerChar_def trim_def isSpace_def
      letters_zip)

section \<open>Practice: matching a transcript against the target word\<close>

lemma practiceResultHandler_status:
  "currentPracticeWordIndex s < length (practiceWords s) \<Longrightarrow>
   practiceStatus (practiceResultHandler t s) =
     (if includes_str (cleanWord t) (cleanWord (word (practiceWords s ! currentPracticeWordIndex s)))
      then SUCCESS else TRY_AGAIN)"
  by (cases "practiceWords s") (simp_all add: practiceResultHandler_def Let_def)

lemma practising_fields:
  "practiceWords (practising [w]) = [\<lparr>word = w, phonemes = [w]\<rparr>]"
  "currentPracticeWordIndex (practising [w]) = 0"
  "practiceStatus (practising [w]) = IDLE"
  by (simp_all add: practising_def preparePractice_resume_def getPhoneticBreakdown_def)

text \<open>
  Claim C2. A practice attempt on a word \<open>w\<close> (the practice word under the cursor) with
  transcript \<open>t\<close> sets the status to \<open>SUCCESS\<close> exactly when \<open>cleanWord t\<close> contains
  \<open>cleanWord w\<close> as a contiguous substring, and to \<open>TRY_AGAIN\<close> exactly when it does not.
  The normalization \<open>cleanWord\<close> is: trim, then lower-case, then delete every \<open>.\<close>, \<open>,\<close>,
  \<open>?\<close> and \<open>!\<close>. Trimming removes white space at both ends only (the rest neither starts
  nor ends with white space); white space is the code units 9 to 13, 32 and 160;
  lower-casing adds 32 to the code units 65 to 90 and 192 to 222 except 215 and leaves
  all others.
\<close>

theorem practice_match_iff_containment:
  assumes "currentPracticeWordIndex s < length (practiceWords s)"
    and "w = word (practiceWords s ! currentPracticeWordIndex s)"
  shows "(practiceStatus (practiceResultHandler t s) = SUCCESS
            \<longleftrightarrow> (\<exists>pre post. cleanWord t = pre @ cleanWord w @ post))
       \<and> (practiceStatus (practiceResultHandler t s) = TRY_AGAIN
            \<longleftrightarrow> \<not> (\<exists>pre post. cleanWord t = pre @ cleanWord w @ post))
       \<and> cleanWord x = filter (\<lambda>c. c \<notin> set ''.,?!'') (map toLowerChar (trim x))
       \<and> (\<exists>l r. x = l @ trim x @ r \<and> list_all isSpace l \<and> list_all isSpace r)
       \<and> (trim x = [] \<or> \<not> isSpace (hd (trim x)) \<and> \<not> isSpace (last (trim x)))
       \<and> (isSpace c \<longleftrightarrow> (of_char c :: nat) \<in> set [9, 10, 11, 12, 13, 32, 160])
       \<and> toLowerChar c =
           (if (65 \<le> (of_char c :: nat) \<and> (of_char c :: nat) \<le> 90)
               \<or> (192 \<le> (of_char c :: nat) \<and> (of_char c :: nat) \<le> 222
                  \<and> (of_char c :: nat) \<noteq> 215)
            then char_of (of_char c + (32::nat)) else c)"
proof (intro conjI)
  from assms show "practiceStatus (practiceResultHandler t s) = SUCCESS
            \<longleftrightarrow> (\<exists>pre post. cleanWord t = pre @ cleanWord w @ post)"
    by (simp add: practiceResultHandler_status includes_iff [symmetric])
  from assms show "practiceStatus (practiceResultHandler t s) = TRY_AGAIN
            \<longleftrightarrow> \<not> (\<exists>pre post. cleanWord t = pre @ cleanWord w @ post)"
    by (simp add: practiceResultHandler_status includes_iff [symmetric])
  show "cleanWord x = filter (\<lambda>c. c \<notin> set ''.,?!'') (map toLowerChar (trim x))"
    by (simp only: cleanWord_def stripPunct_def toLowerCase_def)
  show "\<exists>l r. x = l @ trim x @ r \<and> list_all isSpace l \<and> list_all isSpace r"
    by (rule trim_decomposition)
  show "trim x = [] \<or> \<not> isSpace (hd (trim x)) \<and> \<not> isSpace (last (trim x))"
    by (rule trim_ends)
  show "isSpace c \<longleftrightarrow> (of_char c :: nat) \<in> set [9, 10, 11, 12, 13, 32, 160]"
    by (rule isSpace_code)
  show "toLowerChar c =
           (if (65 \<le> (of_char c :: nat) \<and> (of_char c :: nat) \<le> 90)
               \<or> (192 \<le> (of_char c :: nat) \<and> (of_char c :: nat) \<le> 222
                  \<and> (of_char c :: nat) \<noteq> 215)
            then char_of (of_char c + (32::nat)) else c)"
    by (rule toLowerChar_code)
qed

text \<open>
  The examples of the claim: the transcript \<open>I think it's two.\<close> succeeds on the word
  \<open>two\<close> and fails on the word \<open>three\<close>. The normalization matters: \<open>it's TWO!\<close>
  succeeds on a word stored as \<open> Two? \<close>, whose cleaned form is \<open>two\<close>; the no-break
  space is white space, and \<open>U+00C9\<close> is lower-cased while the multiplication sign is not.
\<close>

theorem practice_match_examples:
  "practiceStatus (practiceResultHandler ''I think it's two.'' (practising [''two''])) = SUCCESS
   \<and> practiceStatus (practiceResultHandler ''I think it's two.'' (practising [''three''])) = TRY_AGAIN
   \<and> practiceStatus (practiceResultHandler ''it's TWO!'' (practising ['' Two? ''])) = SUCCESS
   \<and> cleanWord '' Two? '' = ''two''
   \<and> isSpace (CHR 0xA0) \<and> \<not> isSpace (CHR ''.'')
   \<and> toLowerChar (CHR 0xC9) = CHR 0xE9 \<and> toLowerChar (CHR 0xD7) = CHR 0xD7"
proof -
  let ?t = "''I think it's two.''"
  let ?u = "''it's TWO!''"
  have i2: "currentPracticeWordIndex (practising [''two'']) < length (practiceWords (practising [''two'']))"
    and w2: "''two'' = word (practiceWords (practising [''two'']) ! currentPracticeWordIndex (practising [''two'']))"
    and i3: "currentPracticeWordIndex (practising [''three'']) < length (practiceWords (practising [''three'']))"
    and w3: "''three'' = word (practiceWords (practising [''three'']) ! currentPracticeWordIndex (practising [''three'']))"
    and i4: "currentPracticeWordIndex (practising ['' Two? '']) < length (practiceWords (practising ['' Two? '']))"
    and w4: "'' Two? '' = word (practiceWords (practising ['' Two? '']) ! currentPracticeWordIndex (practising ['' Two? '']))"
    by (simp_all add: practising_fields)
  have "includes_str (cleanWord ?t) (cleanWord ''two'')"
    by (simp add: cleanWord_sentence cleanWord_two)
  then have c2: "\<exists>pre post. cleanWord ?t = pre @ cleanWord ''two'' @ post"
    by (simp add: includes_iff)
  have "\<not> includes_str (cleanWord ?t) (cleanWord ''three'')"
    by (simp add: cleanWord_sentence cleanWord_three)
  then have c3: "\<not> (\<exists>pre post. cleanWord ?t = pre @ cleanWord ''three'' @ post)"
    by (simp add: includes_iff)
  have "includes_str (cleanWord ?u) (cleanWord '' Two? '')"
    by (simp add: cleanWord_shout cleanWord_padded)
  then have c4: "\<exists>pre post. cleanWord ?u = pre @ cleanWord '' Two? '' @ post"
    by (simp add: includes_iff)
  note a = practice_match_iff_containment [OF i2 w2, of ?t "'' Two? ''" "CHR 0xA0"]
  note b = practice_match_iff_containment [OF i3 w3, of ?t "'' Two? ''" "CHR ''.''"]
  note c = practice_match_iff_containment [OF i4 w4, of ?u "'' Two? ''" "CHR 0xC9"]
  note d = practice_match_iff_containment [OF i4 w4, of ?u "'' Two? ''" "CHR 0xD7"]
  from a c2 have r1: "practiceStatus (practiceResultHandler ?t (practising [''two''])) = SUCCESS"
    by blast
  from b c3 have r2: "practiceStatus (practiceResultHandler ?t (practising [''three''])) = TRY_AGAIN"
    by blast
  from c c4 have r3: "practiceStatus (practiceResultHandler ?u (practising ['' Two? ''])) = SUCCESS"
    by blast
  from a have "cleanWord '' Two? '' = filter (\<lambda>c. c \<notin> set ''.,?!'') (map toLowerChar (trim '' Two? ''))"
    by blast
  then have r4: "cleanWord '' Two? '' = ''two''"
    by (simp add: trim_def isSpace_def toLowerChar_def letters_zip)
  from a have "isSpace (CHR 0xA0) \<longleftrightarrow> (of_char (CHR 0xA0) :: nat) \<in> set [9, 10, 11, 12, 13, 32, 160]"
    by blast
  then have r5: "isSpace (CHR 0xA0)" by simp
  from b have "isSpace (CHR ''.'') \<longleftrightarrow> (of_char (CHR ''.'') :: nat) \<in> set [9, 10, 11, 12, 13, 32, 160]"
    by blast
  then have r6: "\<not> isSpace (CHR ''.'')" by simp
  have "char_of (of_char (CHR 0xE9) :: nat) = CHR 0xE9" by (rule char_of_char)
  then have e9: "char_of (233::nat) = CHR 0xE9" by simp
  from c e9 have r7: "toLowerChar (CHR 0xC9) = CHR 0xE9" by simp
  from d have r8: "toLowerChar (CHR 0xD7) = CHR 0xD7" by simp
  from r1 r2 r3 r4 r5 r6 r7 r8 show ?thesis by (intro conjI)
qed



section \<open>The analyzer on an empty transcript\<close>

lemma analyze_blank:
  "trim spokenText = [] \<Longrightarrow>
   analyzeReadingWithAI service spokenText targetLine =
     ([], map (\<lambda>w. \<lparr>said = [], expected = w\<rparr>) (split_space targetLine))"
  by (simp add: analyzeReadingWithAI_def)

text \<open>
  Claim C5, as amended. When the spoken text is empty or only white space,
  \<open>analyzeReadingWithAI\<close> sends no request to the service and returns one Mistake per
  piece of \<open>targetLine.split(' ')\<close>, each with \<open>said\<close> empty and \<open>expected\<close> the piece.
  The pieces are the runs between single spaces, empty runs included: none holds a
  space, and joined by single spaces they give the line back. For a line made of one or
  more non-empty words separated by single spaces the pieces are exactly the words.
\<close>

theorem blank_speech_is_all_omissions:
  assumes "trim spokenText = []"
  shows "fst (analyzeReadingWithAI service spokenText targetLine) = []
       \<and> snd (analyzeReadingWithAI service spokenText targetLine)
           = map (\<lambda>p. \<lparr>said = [], expected = p\<rparr>) (split_space targetLine)
       \<and> join_space (split_space targetLine) = targetLine
       \<and> list_all (\<lambda>p. CHR '' '' \<notin> set p) (split_space targetLine)
       \<and> (\<forall>ws. ws \<noteq> [] \<and> list_all (\<lambda>w. w \<noteq> [] \<and> CHR '' '' \<notin> set w) ws
               \<and> targetLine = join_space ws
            \<longrightarrow> snd (analyzeReadingWithAI service spokenText targetLine)
                  = map (\<lambda>w. \<lparr>said = [], expected = w\<rparr>) ws)"
proof (intro conjI allI impI)
  from assms show "fst (analyzeReadingWithAI service spokenText targetLine) = []"
    by (simp add: analyze_blank)
  from assms show s: "snd (analyzeReadingWithAI service spokenText targetLine)
           = map (\<lambda>p. \<lparr>said = [], expected = p\<rparr>) (split_space targetLine)"
    by (simp add: analyze_blank)
  show "join_space (split_space targetLine) = targetLine"
    by (rule join_split_space)
  show "list_all (\<lambda>p. CHR '' '' \<notin> set p) (split_space targetLine)"
    by (rule split_space_pieces)
  fix ws
  assume w: "ws \<noteq> [] \<and> list_all (\<lambda>w. w \<noteq> [] \<and> CHR '' '' \<notin> set w) ws
               \<and> targetLine = join_space ws"
  then have "list_all (\<lambda>w. CHR '' '' \<notin> set w) ws"
    by (simp add: list_all_iff)
  with w have "split_space targetLine = ws"
    by (simp add: split_space_join)
  with s show "snd (analyzeReadingWithAI service spokenText targetLine)
                  = map (\<lambda>w. \<lparr>said = [], expected = w\<rparr>) ws"
    by simp
qed

text \<open>
  The scenario of the claim: \<open>Can I help you\<close> gives four entries, for the empty spoken
  text and for one made of a space, a no-break space and a tab.
\<close>

theorem blank_speech_can_i_help_you:
  "fst (analyzeReadingWithAI (\<lambda>_ _. AnalyzerThrew) [] ''Can I help you'') = []
   \<and> snd (analyzeReadingWithAI (\<lambda>_ _. AnalyzerThrew) [CHR '' '', CHR 0xA0, CHR 0x09] ''Can I help you'')
       = [\<lparr>said = [], expected = ''Can''\<rparr>, \<lparr>said = [], expected = ''I''\<rparr>,
          \<lparr>said = [], expected = ''help''\<rparr>, \<lparr>said = [], expected = ''you''\<rparr>]
   \<and> length (snd (analyzeReadingWithAI (\<lambda>_ _. AnalyzerThrew) [] ''Can I help you'')) = 4"
proof -
  let ?ws = "[''Can'', ''I'', ''help'', ''you'']"
  have b1: "trim [] = []" and b2: "trim [CHR '' '', CHR 0xA0, CHR 0x09] = []"
    by (simp_all add: trim_def isSpace_def)
  have w: "?ws \<noteq> [] \<and> list_all (\<lambda>w. w \<noteq> [] \<and> CHR '' '' \<notin> set w) ?ws
      \<and> ''Can I help you'' = join_space ?ws"
    by simp
  from blank_speech_is_all_omissions [OF b1, of "\<lambda>_ _. AnalyzerThrew" "''Can I help you''"] w
  have "fst (analyzeReadingWithAI (\<lambda>_ _. AnalyzerThrew) [] ''Can I help you'') = []"
    and "snd (analyzeReadingWithAI (\<lambda>_ _. AnalyzerThrew) [] ''Can I help you'')
       = map (\<lambda>w. \<lparr>said = [], expected = w\<rparr>) ?ws"
    by blast+
  moreover
  from blank_speech_is_all_omissions [OF b2, of "\<lambda>_ _. AnalyzerThrew" "''Can I help you''"] w
  have "snd (analyzeReadingWithAI (\<lambda>_ _. AnalyzerThrew) [CHR '' '', CHR 0xA0, CHR 0x09] ''Can I help you'')
       = map (\<lambda>w. \<lparr>said = [], expected = w\<rparr>) ?ws"
    by blast
  ultimately show ?thesis by simp
qed

text \<open>
  Claim C5 as stated fails: a doubled space, a trailing space and the empty line each
  give an entry whose \<open>expected\<close> is the empty string, which is no word of the line.
\<close>

theorem blank_speech_extra_entries:
  "snd (analyzeReadingWithAI (\<lambda>_ _. AnalyzerThrew) [] ''Can  I'')
     = [\<lparr>said = [], expected = ''Can''\<rparr>, \<lparr>said = [], expected = []\<rparr>,
        \<lparr>said = [], expected = ''I''\<rparr>]
   \<and> snd (analyzeReadingWithAI (\<lambda>_ _. AnalyzerThrew) [] ''Can I '')
     = [\<lparr>said = [], expected = ''Can''\<rparr>, \<lparr>said = [], expected = ''I''\<rparr>,
        \<lparr>said = [], expected = []\<rparr>]
   \<and> snd (analyzeReadingWithAI (\<lambda>_ _. AnalyzerThrew) [] []) = [\<lparr>said = [], expected = []\<rparr>]"
  by (simp add: analyzeReadingWithAI_def trim_def)

section \<open>Re-rendering\<close>

text \<open>Re-rendering touches the timers and may start the practice preparation; nothing else.\<close>

lemma rerender_keeps:
  "step (rerender old new) = step new"
  "script (rerender old new) = script new"
  "selectedCharacter (rerender old new) = selectedCharacter new"
  "currentTurn (rerender old new) = currentTurn new"
  "isAiSpeaking (rerender old new) = isAiSpeaking new"
  "isRecognitionActive (rerender old new) = isRecognitionActive new"
  "recognitionError (rerender old new) = recognitionError new"
  "mistakes (rerender old new) = mistakes new"
  "mistakesId (rerender old new) = mistakesId new"
  "isAnalyzing (rerender old new) = isAnalyzing new"
  "practiceWords (rerender old new) = practiceWords new"
  "currentPracticeWordIndex (rerender old new) = currentPracticeWordIndex new"
  "practiceStatus (rerender old new) = practiceStatus new"
  "practiceTranscript (rerender old new) = practiceTranscript new"
  "hasProcessedTurn (rerender old new) = hasProcessedTurn new"
  "hasRecognizer (rerender old new) = hasRecognizer new"
  "hasVoices (rerender old new) = hasVoices new"
  "analyses (rerender old new) = analyses new"
  "utterances (rerender old new) = utterances new"
  "successTimeouts (rerender old new) = successTimeouts new"
  "submissions (rerender old new) = submissions new"
  "micStarts (rerender old new) = micStarts new"
  "practiceStarts (rerender old new) = practiceStarts new"
  by (simp_all add: rerender_def Let_def turnEffect_def preparePractice_def)

section \<open>Evaluating the demonstration run\<close>

lemmas handler_defs =
  processUserTurn_def processUserTurn_resume_def handleResult_def speechTimeout_fires_def
  handleError_def handleStart_def handleEnd_def startRecognition_def handleAiTurnEnd_def
  turnEffect_def speak_def preparePractice_def preparePractice_resume_def
  startPracticeRecognition_def practiceResultHandler_def successTimeout_fires_def
  practice_handleError_def practice_handleEnd_def remove_nth_def
  captureEffect_deps_def turnEffect_deps_def practicePrepEffect_deps_def rerender_def fire_def

lemmas string_defs =
  trim_def isSpace_def cleanWord_def stripPunct_def toLowerCase_def toLowerChar_def letters_zip

lemmas demo_defs = demo_game_def demo_script_def newGame_def first_submission_def

lemma trim_yes_please: "trim ''yes please'' = ''yes please''"
  by (simp add: trim_def isSpace_def)

lemma cleanWord_yes: "cleanWord ''yes'' = ''yes''"
  by (simp add: string_defs)

lemma cleanWord_please: "cleanWord ''please'' = ''please''"
  by (simp add: string_defs)

lemmas run_defs = demo_defs handler_defs Let_def trim_yes_please cleanWord_yes cleanWord_please

lemma run_append: "run (xs @ ys) s = run ys (run xs s)"
  by (induction xs arbitrary: s) simp_all

lemma first_submission_state:
  "run first_submission demo_game =
     demo_game\<lparr>currentTurn := 1, isRecognitionActive := True, matchedWordCount := 2,
       isAnalyzing := True, hasProcessedTurn := True, startMicTimeout := False,
       speakTimeout := False, analyses := [(''yes please'', 1, [])],
       submissions := [(1, ''yes please'')], micStarts := 1\<rparr>"
  by (simp add: demo_defs handler_defs Let_def trim_yes_please cleanWord_yes cleanWord_please)

lemma demo_game_fields:
  "script demo_game = demo_script" "step demo_game = GAME" "mistakes demo_game = []"
  "preparations demo_game = []" "mistakesId demo_game = 0" "currentTurn demo_game = 0"
  by (simp_all add: demo_defs handler_defs)

lemma wordsToPractice_please:
  "wordsToPractice [\<lparr>said = [], expected = ''please''\<rparr>] = [''please'']"
  by (simp add: wordsToPractice_def spread_set_def)

lemma one_mistake_state:
  "preparations (fire (AnalysisDone 0 (AnalyzerArray [\<lparr>said = [], expected = ''please''\<rparr>]))
      (run first_submission demo_game)) = [[''please'']]"
  by (simp add: first_submission_state demo_game_fields handler_defs Let_def
      analyzeReadingWithAI_def trim_yes_please wordsToPractice_please demo_script_def)

section \<open>Failing services\<close>

lemma analyze_failed:
  "trim spokenText \<noteq> [] \<Longrightarrow> service spokenText targetLine = AnalyzerThrew \<Longrightarrow>
   analyzeReadingWithAI service spokenText targetLine = ([(spokenText, targetLine)], [])"
  by (simp add: analyzeReadingWithAI_def)

lemma phonetic_failed:
  "service w = PhoneticThrew \<Longrightarrow> getPhoneticBreakdown service w = [w]"
  by (simp add: getPhoneticBreakdown_def)

lemma analysis_failed_progress:
  assumes "n < length (analyses s)" and "analyses s ! n = (transcript, turn, ms)"
    and "trim transcript \<noteq> []"
  shows "mistakes (fire (AnalysisDone n AnalyzerThrew) s) = ms"
    and "\<not> isAnalyzing (fire (AnalysisDone n AnalyzerThrew) s)"
    and "turn < length (script s) - 1 \<Longrightarrow>
           currentTurn (fire (AnalysisDone n AnalyzerThrew) s) = currentTurn s + 1
           \<and> step (fire (AnalysisDone n AnalyzerThrew) s) = step s"
    and "\<not> turn < length (script s) - 1 \<Longrightarrow>
           step (fire (AnalysisDone n AnalyzerThrew) s) = (if ms \<noteq> [] then PRACTICE_PREP else COMPLETE)"
  using assms
  by (simp_all add: fire_def rerender_keeps processUserTurn_resume_def Let_def analyzeReadingWithAI_def)

lemma phonetics_failed_progress:
  assumes "preparations s = ws # rest" and "list_all (\<lambda>w. service w = PhoneticThrew) ws"
  shows "step (fire (PhoneticsDone service) s) = PRACTICE"
    and "practiceWords (fire (PhoneticsDone service) s) = map (\<lambda>w. \<lparr>word = w, phonemes = [w]\<rparr>) ws"
    and "practiceStatus (fire (PhoneticsDone service) s) = IDLE"
    and "currentPracticeWordIndex (fire (PhoneticsDone service) s) = 0"
proof -
  from assms(2) have "filter (\<lambda>p. length (phonemes p) > 0)
      (map (\<lambda>w. \<lparr>word = w, phonemes = getPhoneticBreakdown service w\<rparr>) ws)
    = map (\<lambda>w. \<lparr>word = w, phonemes = [w]\<rparr>) ws"
    by (induction ws) (simp_all add: getPhoneticBreakdown_def)
  with assms(1) show "practiceWords (fire (PhoneticsDone service) s) = map (\<lambda>w. \<lparr>word = w, phonemes = [w]\<rparr>) ws"
    by (simp add: fire_def rerender_keeps preparePractice_resume_def Let_def)
  from assms(1) show "step (fire (PhoneticsDone service) s) = PRACTICE"
    "practiceStatus (fire (PhoneticsDone service) s) = IDLE"
    "currentPracticeWordIndex (fire (PhoneticsDone service) s) = 0"
    by (simp_all add: fire_def rerender_keeps preparePractice_resume_def Let_def)
qed

text \<open>
  Claim C9. When the analyzer call fails, \<open>analyzeReadingWithAI\<close> returns the empty
  Mistake list, and when the decomposition call for \<open>w\<close> fails, \<open>getPhoneticBreakdown\<close>
  returns \<open>[w]\<close>. Neither blocks the session: the suspended turn resumes with no new
  mistakes, stops analyzing and moves the turn pointer on (or closes the dialogue on the
  last turn), and a preparation whose words all fail enters \<open>PRACTICE\<close> with every word
  kept, at the first word and \<open>IDLE\<close>.
\<close>

theorem service_failures_degrade:
  "(trim spokenText \<noteq> [] \<and> service spokenText targetLine = AnalyzerThrew
      \<longrightarrow> analyzeReadingWithAI service spokenText targetLine = ([(spokenText, targetLine)], []))
   \<and> (pservice w = PhoneticThrew \<longrightarrow> getPhoneticBreakdown pservice w = [w])
   \<and> (n < length (analyses s) \<and> analyses s ! n = (transcript, turn, ms) \<and> trim transcript \<noteq> []
      \<longrightarrow> mistakes (fire (AnalysisDone n AnalyzerThrew) s) = ms
        \<and> \<not> isAnalyzing (fire (AnalysisDone n AnalyzerThrew) s)
        \<and> (if turn < length (script s) - 1
            then currentTurn (fire (AnalysisDone n AnalyzerThrew) s) = currentTurn s + 1
               \<and> step (fire (AnalysisDone n AnalyzerThrew) s) = step s
            else step (fire (AnalysisDone n AnalyzerThrew) s)
                   = (if ms \<noteq> [] then PRACTICE_PREP else COMPLETE)))
   \<and> (preparations s = ws # rest \<and> list_all (\<lambda>w. pservice w = PhoneticThrew) ws
      \<longrightarrow> step (fire (PhoneticsDone pservice) s) = PRACTICE
        \<and> practiceWords (fire (PhoneticsDone pservice) s) = map (\<lambda>w. \<lparr>word = w, phonemes = [w]\<rparr>) ws
        \<and> practiceStatus (fire (PhoneticsDone pservice) s) = IDLE
        \<and> currentPracticeWordIndex (fire (PhoneticsDone pservice) s) = 0)"
  using analyze_failed [of spokenText service targetLine] phonetic_failed [of pservice w]
    analysis_failed_progress [of n s transcript turn ms]
    phonetics_failed_progress [of s ws rest pservice]
  by presburger

text \<open>
  The claim at concrete inputs: a failing analyzer on the submitted last turn of the
  demonstration script closes the dialogue with no mistakes, and a failing decomposition
  of the one missed word \<open>please\<close> still enters \<open>PRACTICE\<close> with that word.
\<close>

theorem service_failures_degrade_witness:
  "analyzeReadingWithAI (\<lambda>_ _. AnalyzerThrew) ''yes please'' ''Yes please''
      = ([(''yes please'', ''Yes please'')], [])
   \<and> getPhoneticBreakdown (\<lambda>_. PhoneticThrew) ''please'' = [''please'']
   \<and> mistakes (fire (AnalysisDone 0 AnalyzerThrew) (run first_submission demo_game)) = []
   \<and> \<not> isAnalyzing (fire (AnalysisDone 0 AnalyzerThrew) (run first_submission demo_game))
   \<and> step (fire (AnalysisDone 0 AnalyzerThrew) (run first_submission demo_game)) = COMPLETE
   \<and> step (fire (PhoneticsDone (\<lambda>_. PhoneticThrew))
        (fire (AnalysisDone 0 (AnalyzerArray [\<lparr>said = [], expected = ''please''\<rparr>]))
           (run first_submission demo_game))) = PRACTICE
   \<and> practiceWords (fire (PhoneticsDone (\<lambda>_. PhoneticThrew))
        (fire (AnalysisDone 0 (AnalyzerArray [\<lparr>said = [], expected = ''please''\<rparr>]))
           (run first_submission demo_game))) = [\<lparr>word = ''please'', phonemes = [''please'']\<rparr>]"
proof -
  let ?s = "run first_submission demo_game"
  let ?p = "fire (AnalysisDone 0 (AnalyzerArray [\<lparr>said = [], expected = ''please''\<rparr>])) ?s"
  have a: "trim ''yes please'' \<noteq> []"
    by (simp add: trim_yes_please)
  have b: "0 < length (analyses ?s)" "analyses ?s ! 0 = (''yes please'', 1, [])"
    "\<not> 1 < length (script ?s) - 1"
    by (simp_all add: first_submission_state demo_game_fields demo_script_def)
  have c: "preparations ?p = [''please''] # []"
    by (simp add: one_mistake_state)
  note t1 = service_failures_degrade
    [where spokenText = "''yes please''" and service = "\<lambda>_ _. AnalyzerThrew"
       and targetLine = "''Yes please''"
       and pservice = "\<lambda>_. PhoneticThrew" and w = "''please''" and n = 0 and s = ?s
       and transcript = "''yes please''" and turn = 1 and ms = "[]"]
  note t2 = service_failures_degrade
    [where pservice = "\<lambda>_. PhoneticThrew" and s = ?p and ws = "[''please'']" and rest = "[]"]
  from t1 a b have
    "analyzeReadingWithAI (\<lambda>_ _. AnalyzerThrew) ''yes please'' ''Yes please''
       = ([(''yes please'', ''Yes please'')], [])"
    "getPhoneticBreakdown (\<lambda>_. PhoneticThrew) ''please'' = [''please'']"
    "mistakes (fire (AnalysisDone 0 AnalyzerThrew) ?s) = []"
    "\<not> isAnalyzing (fire (AnalysisDone 0 AnalyzerThrew) ?s)"
    "step (fire (AnalysisDone 0 AnalyzerThrew) ?s) = COMPLETE"
    by simp_all
  moreover from t2 c have
    "step (fire (PhoneticsDone (\<lambda>_. PhoneticThrew)) ?p) = PRACTICE"
    "practiceWords (fire (PhoneticsDone (\<lambda>_. PhoneticThrew)) ?p) = [\<lparr>word = ''please'', phonemes = [''please'']\<rparr>]"
    by simp_all
  ultimately show ?thesis by (intro conjI)
qed

section \<open>Building the practice words\<close>

lemma set_add_all_append: "set_add_all acc (xs @ ys) = set_add_all (set_add_all acc xs) ys"
  by (induction xs arbitrary: acc) simp_all

lemma set_set_add_all: "set (set_add_all acc xs) = set acc \<union> set xs"
  by (induction xs arbitrary: acc) auto

lemma distinct_set_add_all: "distinct acc \<Longrightarrow> distinct (set_add_all acc xs)"
  by (induction xs arbitrary: acc) simp_all

lemma set_spread_set: "set (spread_set xs) = set xs"
  by (simp add: spread_set_def set_set_add_all)

lemma distinct_spread_set: "distinct (spread_set xs)"
  by (simp add: spread_set_def distinct_set_add_all)

lemma spread_set_snoc:
  "spread_set (xs @ [x]) = (if x \<in> set xs then spread_set xs else spread_set xs @ [x])"
  using set_spread_set [of xs] by (simp add: spread_set_def set_add_all_append)

lemma first_occurrences_snoc:
  "first_occurrences (xs @ [x])
     = (if x \<in> set xs then first_occurrences xs else first_occurrences xs @ [x])"
proof -
  let ?ys = "xs @ [x]"
  let ?keep = "\<lambda>zs i. zs ! i \<notin> set (take i zs)"
  have f: "filter (?keep ?ys) [0..<length xs] = filter (?keep xs) [0..<length xs]"
    by (rule filter_cong) (auto simp: nth_append)
  have m: "map (\<lambda>i. ?ys ! i) (filter (?keep xs) [0..<length xs])
         = map (\<lambda>i. xs ! i) (filter (?keep xs) [0..<length xs])"
    by (rule map_cong) (auto simp: nth_append)
  have l: "?keep ?ys (length xs) \<longleftrightarrow> x \<notin> set xs"
    by simp
  have "first_occurrences ?ys
      = map (\<lambda>i. ?ys ! i) (filter (?keep ?ys) ([0..<length xs] @ [length xs]))"
    by (simp add: first_occurrences_def)
  also have "\<dots> = map (\<lambda>i. ?ys ! i) (filter (?keep ?ys) [0..<length xs])
                 @ map (\<lambda>i. ?ys ! i) (filter (?keep ?ys) [length xs])"
    by (simp only: filter_append map_append)
  also have "map (\<lambda>i. ?ys ! i) (filter (?keep ?ys) [0..<length xs]) = first_occurrences xs"
    by (simp only: f m first_occurrences_def)
  also have "map (\<lambda>i. ?ys ! i) (filter (?keep ?ys) [length xs]) = (if x \<in> set xs then [] else [x])"
    using l by simp
  finally show ?thesis by simp
qed

lemma spread_set_first_occurrences: "spread_set xs = first_occurrences xs"
proof (induction xs rule: rev_induct)
  case Nil
  show ?case by (simp add: spread_set_def first_occurrences_def)
next
  case (snoc x xs)
  then show ?case by (simp add: spread_set_snoc first_occurrences_snoc)
qed

lemma distinct_wordsToPractice: "distinct (wordsToPractice ms)"
  by (simp add: wordsToPractice_def distinct_spread_set)

lemma set_wordsToPractice: "set (wordsToPractice ms) = {w. w \<noteq> [] \<and> w \<in> expected ` set ms}"
  by (auto simp: wordsToPractice_def set_spread_set)

lemma wordsToPractice_order:
  "wordsToPractice ms = first_occurrences (filter (\<lambda>w. w \<noteq> []) (map expected ms))"
  by (simp add: wordsToPractice_def spread_set_first_occurrences)

lemma preparePractice_queue:
  "wordsToPractice (mistakes s) \<noteq> [] \<Longrightarrow>
   preparePractice s = s\<lparr>preparations := preparations s @ [wordsToPractice (mistakes s)]\<rparr>"
  "wordsToPractice (mistakes s) = [] \<Longrightarrow>
   preparePractice s = s\<lparr>completions := completions s + 1\<rparr>"
  by (simp_all add: preparePractice_def Let_def)

text \<open>
  Claim C3, as amended. The words to practise are the non-empty \<open>expected\<close> values of
  the accumulated Mistakes, deduplicated by equality of the strings as they are (no
  \<open>cleanWord\<close> is applied): every such string occurs exactly once, in the order of first
  occurrence. The practice-word sequence pairs each with its phonemes and drops the
  words whose phoneme sequence is empty.
\<close>

theorem practice_words_from_mistakes:
  "distinct (wordsToPractice ms)
   \<and> set (wordsToPractice ms) = {w. w \<noteq> [] \<and> w \<in> expected ` set ms}
   \<and> wordsToPractice ms = first_occurrences (filter (\<lambda>w. w \<noteq> []) (map expected ms))
   \<and> (mistakes s = ms \<and> preparations s = [] \<and> wordsToPractice ms \<noteq> []
      \<longrightarrow> practiceWords (handle (PhoneticsDone service) (preparePractice s))
          = filter (\<lambda>p. phonemes p \<noteq> [])
              (map (\<lambda>w. \<lparr>word = w, phonemes = getPhoneticBreakdown service w\<rparr>) (wordsToPractice ms)))"
  using distinct_wordsToPractice [of ms] set_wordsToPractice [of ms] wordsToPractice_order [of ms]
  by (simp add: preparePractice_queue preparePractice_resume_def)

lemma wordsToPractice_demo: "wordsToPractice demo_mistakes = [''please'', ''help'']"
  by (simp add: demo_mistakes_def wordsToPractice_def spread_set_def)

lemma first_occurrences_demo:
  "first_occurrences (filter (\<lambda>w. w \<noteq> []) (map expected demo_mistakes)) = [''please'', ''help'']"
  using wordsToPractice_order [of demo_mistakes] by (simp add: wordsToPractice_demo)

text \<open>
  At the demonstration Mistakes: \<open>please\<close> occurs twice and is kept once, the inserted
  word is skipped, and \<open>help\<close>, which the service decomposes into nothing, is dropped.
\<close>

theorem practice_words_from_mistakes_witness:
  "distinct (wordsToPractice demo_mistakes)
   \<and> wordsToPractice demo_mistakes = [''please'', ''help'']
   \<and> practiceWords
        (handle (PhoneticsDone (\<lambda>w. if w = ''help'' then PhoneticArray [] else PhoneticThrew))
           (preparePractice (demo_game\<lparr>mistakes := demo_mistakes\<rparr>)))
       = [\<lparr>word = ''please'', phonemes = [''please'']\<rparr>]"
proof -
  let ?s = "demo_game\<lparr>mistakes := demo_mistakes\<rparr>"
  let ?f = "\<lambda>w. if w = ''help'' then PhoneticArray [] else PhoneticThrew"
  have h: "mistakes ?s = demo_mistakes" "preparations ?s = []" "wordsToPractice demo_mistakes \<noteq> []"
    by (simp_all add: demo_game_fields wordsToPractice_demo)
  have g: "getPhoneticBreakdown ?f ''please'' = [''please'']" "getPhoneticBreakdown ?f ''help'' = []"
    by (simp_all add: getPhoneticBreakdown_def)
  from practice_words_from_mistakes [of demo_mistakes ?s ?f] h
  show ?thesis
    by (simp add: wordsToPractice_demo g first_occurrences_demo)
qed

text \<open>
  Claim C3 as stated fails: \<open>You\<close> and \<open>you\<close> are different strings with the same
  cleaned form, and both are kept, so the cleaned word \<open>you\<close> occurs twice.
\<close>

theorem practice_words_keep_case_variants:
  "wordsToPractice [\<lparr>said = [], expected = ''You''\<rparr>, \<lparr>said = [], expected = ''you''\<rparr>]
     = [''You'', ''you'']
   \<and> \<not> distinct (map cleanWord
          (wordsToPractice [\<lparr>said = [], expected = ''You''\<rparr>, \<lparr>said = [], expected = ''you''\<rparr>]))"
proof -
  have w: "wordsToPractice [\<lparr>said = [], expected = ''You''\<rparr>, \<lparr>said = [], expected = ''you''\<rparr>]
     = [''You'', ''you'']"
    by (simp add: wordsToPractice_def spread_set_def)
  have c: "cleanWord ''You'' = ''you''" "cleanWord ''you'' = ''you''"
    by (simp_all add: string_defs)
  show ?thesis by (simp add: w c)
qed

section \<open>Practice preparation that leaves nothing to practise\<close>

lemma practiceResultHandler_no_words:
  assumes "practiceWords s = []"
  shows "practiceResultHandler t s = s\<lparr>practiceTranscript := t\<rparr>"
  using assms by (simp add: practiceResultHandler_def Let_def)

text \<open>
  Claim C7, as amended. \<open>preparePractice\<close> signals completion at once, and asks for no
  decomposition, exactly when the deduplicated list of non-empty expected words is
  empty. Otherwise it waits for the decompositions and then always enters \<open>PRACTICE\<close>
  without signalling completion, also when the filter for empty phoneme sequences
  leaves no practice word; with no practice word a capture result only stores the
  transcript: no word is drilled.
\<close>

theorem practice_preparation_outcomes:
  "(wordsToPractice (mistakes s) = [] \<longrightarrow>
      preparePractice s = s\<lparr>completions := completions s + 1\<rparr>)
   \<and> (wordsToPractice (mistakes s) \<noteq> [] \<longrightarrow>
      preparePractice s = s\<lparr>preparations := preparations s @ [wordsToPractice (mistakes s)]\<rparr>)
   \<and> step (preparePractice_resume ws service s) = PRACTICE
   \<and> completions (preparePractice_resume ws service s) = completions s
   \<and> practiceWords (preparePractice_resume ws service s)
       = filter (\<lambda>p. phonemes p \<noteq> [])
           (map (\<lambda>w. \<lparr>word = w, phonemes = getPhoneticBreakdown service w\<rparr>) ws)
   \<and> (practiceWords s = [] \<longrightarrow> practiceResultHandler t s = s\<lparr>practiceTranscript := t\<rparr>)"
  by (simp add: preparePractice_queue preparePractice_resume_def practiceResultHandler_no_words)

text \<open>
  The three cases at concrete inputs: only an inserted word (completion at once), the
  demonstration Mistakes (decomposition requested, no completion), and a service that
  decomposes every word into nothing (step \<open>PRACTICE\<close>, no practice word, no completion).
\<close>

theorem practice_preparation_outcomes_witness:
  "completions (preparePractice insertion_only) = 1
   \<and> preparations (preparePractice insertion_only) = []
   \<and> step (preparePractice insertion_only) = PRACTICE_PREP
   \<and> preparations (preparePractice (demo_game\<lparr>mistakes := demo_mistakes\<rparr>)) = [[''please'', ''help'']]
   \<and> completions (preparePractice (demo_game\<lparr>mistakes := demo_mistakes\<rparr>)) = 0
   \<and> step (preparePractice_resume [''please'', ''help''] silent_service demo_game) = PRACTICE
   \<and> practiceWords (preparePractice_resume [''please'', ''help''] silent_service demo_game) = []
   \<and> completions (preparePractice_resume [''please'', ''help''] silent_service demo_game) = 0
   \<and> practiceStatus (practiceResultHandler ''please'' demo_game) = IDLE
   \<and> successTimeouts (practiceResultHandler ''please'' demo_game) = []
   \<and> completions (practiceResultHandler ''please'' demo_game) = 0"
proof -
  let ?d = "demo_game\<lparr>mistakes := demo_mistakes\<rparr>"
  have w1: "wordsToPractice (mistakes insertion_only) = []"
    by (simp add: insertion_only_def wordsToPractice_def spread_set_def)
  have w2: "wordsToPractice (mistakes ?d) \<noteq> []" "wordsToPractice (mistakes ?d) = [''please'', ''help'']"
    by (simp_all add: wordsToPractice_demo)
  have e: "practiceWords demo_game = []"
    by (simp add: demo_defs handler_defs)
  have f: "completions demo_game = 0" "preparations demo_game = []" "practiceStatus demo_game = IDLE"
    "successTimeouts demo_game = []"
    by (simp_all add: demo_defs handler_defs)
  note t1 = practice_preparation_outcomes [where s = insertion_only]
  note t2 = practice_preparation_outcomes [where s = ?d]
  note t3 = practice_preparation_outcomes
    [where s = demo_game and ws = "[''please'', ''help'']" and service = silent_service
       and t = "''please''"]
  from t1 w1 have "preparePractice insertion_only
      = insertion_only\<lparr>completions := completions insertion_only + 1\<rparr>"
    by blast
  then have a: "completions (preparePractice insertion_only) = 1"
    "preparations (preparePractice insertion_only) = []"
    "step (preparePractice insertion_only) = PRACTICE_PREP"
    by (simp_all add: insertion_only_def f)
  from t2 w2(1) have "preparePractice ?d
      = ?d\<lparr>preparations := preparations ?d @ [wordsToPractice (mistakes ?d)]\<rparr>"
    by blast
  then have b: "preparations (preparePractice ?d) = [[''please'', ''help'']]"
    "completions (preparePractice ?d) = 0"
    by (simp_all add: wordsToPractice_demo f)
  from t3 have c: "step (preparePractice_resume [''please'', ''help''] silent_service demo_game) = PRACTICE"
    "completions (preparePractice_resume [''please'', ''help''] silent_service demo_game) = 0"
    "practiceWords (preparePractice_resume [''please'', ''help''] silent_service demo_game) = []"
    by (simp_all add: f getPhoneticBreakdown_def silent_service_def)
  from t3 e have "practiceResultHandler ''please'' demo_game = demo_game\<lparr>practiceTranscript := ''please''\<rparr>"
    by blast
  then have d: "practiceStatus (practiceResultHandler ''please'' demo_game) = IDLE"
    "successTimeouts (practiceResultHandler ''please'' demo_game) = []"
    "completions (practiceResultHandler ''please'' demo_game) = 0"
    by (simp_all add: f)
  from a b c d show ?thesis by (intro conjI)
qed

text \<open>
  Claim C7 as stated fails: in the demonstration run the learner misses \<open>please\<close>, the
  service decomposes it into nothing, and the component enters \<open>PRACTICE\<close> with an
  empty practice-word sequence without having called \<open>onComplete\<close>.
\<close>

theorem empty_phonemes_enter_practice:
  "step (fire (PhoneticsDone silent_service)
      (fire (AnalysisDone 0 (AnalyzerArray [\<lparr>said = [], expected = ''please''\<rparr>]))
         (run first_submission demo_game))) = PRACTICE
   \<and> practiceWords (fire (PhoneticsDone silent_service)
      (fire (AnalysisDone 0 (AnalyzerArray [\<lparr>said = [], expected = ''please''\<rparr>]))
         (run first_submission demo_game))) = []
   \<and> completions (fire (PhoneticsDone silent_service)
      (fire (AnalysisDone 0 (AnalyzerArray [\<lparr>said = [], expected = ''please''\<rparr>]))
         (run first_submission demo_game))) = 0"
proof -
  let ?p = "fire (AnalysisDone 0 (AnalyzerArray [\<lparr>said = [], expected = ''please''\<rparr>]))
         (run first_submission demo_game)"
  have c: "completions ?p = 0"
    by (simp add: first_submission_state demo_game_fields handler_defs Let_def
      analyzeReadingWithAI_def trim_yes_please wordsToPractice_please demo_script_def)
       (simp add: demo_defs handler_defs)
  show ?thesis
    by (simp add: fire_def [of "PhoneticsDone silent_service"] rerender_keeps one_mistake_state
        preparePractice_resume_def getPhoneticBreakdown_def silent_service_def
        rerender_def Let_def turnEffect_def c)
qed

section \<open>Practice: retrying a word\<close>

lemma rerender_same: "rerender s s = s"
  by (simp add: rerender_def)

lemma trigger_rejected:
  "practiceStatus s \<noteq> IDLE \<Longrightarrow> fire (ListenTrigger outcome) s = s"
  by (simp add: fire_def startPracticeRecognition_def rerender_same)

lemma triggers_rejected:
  "practiceStatus s \<noteq> IDLE \<Longrightarrow> run (map ListenTrigger outcomes) s = s"
  by (induction outcomes) (simp_all add: trigger_rejected)

lemma cleanWord_tugeda: "cleanWord ''tugeda'' = ''tugeda''"
  by (simp add: string_defs)

lemma cleanWord_together: "cleanWord ''together'' = ''together''"
  by (simp add: string_defs)

lemma practising_state:
  "practising ws = (newGame [] [] True True)
     \<lparr>step := PRACTICE, practiceWords := map (\<lambda>w. \<lparr>word = w, phonemes = [w]\<rparr>) ws\<rparr>"
  by (simp add: practising_def preparePractice_resume_def getPhoneticBreakdown_def newGame_def
      turnEffect_def filter_map comp_def)

lemma failed_attempt_state:
  "run failed_attempt (practising [''together''])
     = (practising [''together''])
         \<lparr>practiceStatus := TRY_AGAIN, practiceTranscript := ''tugeda'', practiceStarts := 1\<rparr>"
  by (simp add: failed_attempt_def practising_state newGame_def handler_defs Let_def
      cleanWord_tugeda cleanWord_together)

text \<open>
  Claim C4. After a non-matching result the status is \<open>TRY_AGAIN\<close> and stays so when the
  capture session ends; \<open>startPracticeRecognition\<close> then rejects every trigger, because
  the status is not \<open>IDLE\<close>: the recognizer is not started again (\<open>practiceStarts\<close> stays
  1), the cursor stays on the word, and no number of triggers changes the state.
\<close>

theorem try_again_blocks_retry:
  "practiceStatus (run failed_attempt (practising [''together''])) = TRY_AGAIN
   \<and> practiceStarts (run failed_attempt (practising [''together''])) = 1
   \<and> currentPracticeWordIndex (run failed_attempt (practising [''together''])) = 0
   \<and> (\<forall>outcomes. run (failed_attempt @ map ListenTrigger outcomes) (practising [''together''])
         = run failed_attempt (practising [''together'']))"
proof -
  let ?s = "run failed_attempt (practising [''together''])"
  have st: "practiceStatus ?s = TRY_AGAIN" "practiceStarts ?s = 1" "currentPracticeWordIndex ?s = 0"
    by (simp_all add: failed_attempt_state practising_fields)
  have "practiceStatus ?s \<noteq> IDLE"
    by (simp add: st)
  then have "\<forall>outcomes. run (map ListenTrigger outcomes) ?s = ?s"
    by (simp only: triggers_rejected simp_thms)
  then have "\<forall>outcomes. run (failed_attempt @ map ListenTrigger outcomes) (practising [''together'']) = ?s"
    by (simp add: run_append)
  with st show ?thesis by (intro conjI)
qed

section \<open>Dialogue: the processed-turn guard\<close>

lemma guard_set_by_submission: "hasProcessedTurn (processUserTurn transcript s)"
  by (simp add: processUserTurn_def Let_def)

lemma guard_ignores_result: "hasProcessedTurn s \<Longrightarrow> handleResult resultIndex results s = s"
  by (simp add: handleResult_def)

lemma guard_ignores_submission: "hasProcessedTurn s \<Longrightarrow> processUserTurn transcript s = s"
  by (simp add: processUserTurn_def)

lemma guard_cleared_by_start:
  "hasRecognizer s \<Longrightarrow> \<not> isRecognitionActive s \<Longrightarrow>
   \<not> hasProcessedTurn (startRecognition outcome s)"
  by (simp add: startRecognition_def Let_def split: start_outcome.splits)

text \<open>
  Claim C1. In the demonstration run the learner's turn (turn 1) is submitted to the
  analyzer twice: the guard is set by the first submission, the restart of the
  microphone for the same turn clears it while the first analysis is pending, and the
  next silence timer submits the turn again. The turn pointer has not moved.
\<close>

theorem turn_submitted_twice:
  "submissions (run double_submission demo_game) = [(1, ''yes please''), (1, ''yes please'')]
   \<and> currentTurn (run double_submission demo_game) = 1
   \<and> length (analyses (run double_submission demo_game)) = 2
   \<and> hasProcessedTurn (run first_submission demo_game)
   \<and> \<not> hasProcessedTurn
        (run (first_submission @ [RecognizerEnd, StartMicTimeout StartOk]) demo_game)
   \<and> currentTurn (run (first_submission @ [RecognizerEnd, StartMicTimeout StartOk]) demo_game) = 1"
proof (intro conjI)
  show "submissions (run double_submission demo_game) = [(1, ''yes please''), (1, ''yes please'')]"
    by (simp add: double_submission_def run_defs)
  show "currentTurn (run double_submission demo_game) = 1"
    by (simp add: double_submission_def run_defs)
  show "length (analyses (run double_submission demo_game)) = 2"
    by (simp add: double_submission_def run_defs)
  show "hasProcessedTurn (run first_submission demo_game)"
    by (simp add: run_defs)
  show "\<not> hasProcessedTurn
        (run (first_submission @ [RecognizerEnd, StartMicTimeout StartOk]) demo_game)"
    by (simp add: run_defs)
  show "currentTurn (run (first_submission @ [RecognizerEnd, StartMicTimeout StartOk]) demo_game) = 1"
    by (simp add: run_defs)
qed

section \<open>Dialogue: closing out\<close>

lemma list_all_remove_nth: "list_all P xs \<Longrightarrow> list_all P (remove_nth n xs)"
  by (auto simp: remove_nth_def list_all_iff dest: in_set_takeD in_set_dropD)

lemma rerender_all_correct: "all_correct new \<Longrightarrow> all_correct (rerender old new)"
  by (auto simp: all_correct_def rerender_def Let_def turnEffect_def)

lemma handle_all_correct:
  assumes "all_correct s" and "reports_no_mistake ev"
  shows "all_correct (handle ev s)"
proof (cases ev)
  case (AnalysisDone n reply)
  show ?thesis
  proof (cases "n < length (analyses s)")
    case False
    with assms AnalysisDone show ?thesis by simp
  next
    case True
    obtain transcript turn ms where p: "analyses s ! n = (transcript, turn, ms)"
      by (cases "analyses s ! n") auto
    from assms(1) True p have q: "ms = []" "trim transcript \<noteq> []"
      by (auto simp: all_correct_def list_all_length)
    from assms(2) AnalysisDone have r: "\<And>tl. snd (analyzeReadingWithAI (\<lambda>_ _. reply) transcript tl) = []"
      using q by (cases reply) (simp_all add: analyzeReadingWithAI_def)
    from assms(1) have "list_all (\<lambda>(transcript, turn, ms). ms = [] \<and> trim transcript \<noteq> [])
        (remove_nth n (analyses s))"
      by (simp add: all_correct_def list_all_remove_nth)
    with assms(1) True p q r AnalysisDone show ?thesis
      by (auto simp: all_correct_def processUserTurn_resume_def Let_def)
  qed
next
  case SpeechTimeout
  with assms(1) show ?thesis
    by (auto simp: all_correct_def speechTimeout_fires_def processUserTurn_def Let_def trim_trim
        split: option.splits)
next
  case UtteranceEnd
  with assms(1) show ?thesis
    by (auto simp: all_correct_def handleAiTurnEnd_def split: list.splits)
next
  case (PhoneticsDone service)
  with assms(1) show ?thesis
    by (auto simp: all_correct_def)
next
  case SuccessTimeout
  with assms(1) show ?thesis
    by (auto simp: all_correct_def successTimeout_fires_def split: list.splits)
qed (use assms(1) in \<open>auto simp: all_correct_def handler_defs Let_def split: start_outcome.splits\<close>)

lemma fire_all_correct:
  "all_correct s \<Longrightarrow> reports_no_mistake ev \<Longrightarrow> all_correct (fire ev s)"
  by (simp add: fire_def rerender_all_correct handle_all_correct)

lemma run_all_correct:
  "all_correct s \<Longrightarrow> list_all reports_no_mistake evs \<Longrightarrow> all_correct (run evs s)"
  by (induction evs arbitrary: s) (simp_all add: fire_all_correct)

lemma newGame_all_correct: "all_correct (newGame scr who recognizer voices)"
  by (simp add: all_correct_def newGame_def turnEffect_def)

lemma last_user_turn_closes:
  assumes "n < length (analyses s)" and "analyses s ! n = (transcript, turn, ms)"
    and "\<not> turn < length (script s) - 1"
  shows "mistakes (fire (AnalysisDone n reply) s)
           = ms @ snd (analyzeReadingWithAI (\<lambda>_ _. reply) transcript (line (script s ! turn)))"
    and "step (fire (AnalysisDone n reply) s)
           = (if mistakes (fire (AnalysisDone n reply) s) \<noteq> [] then PRACTICE_PREP else COMPLETE)"
  using assms by (simp_all add: fire_def rerender_keeps processUserTurn_resume_def Let_def)

lemma last_synthesized_turn_closes:
  assumes "utterances s = (turn, ms) # rest" and "\<not> turn < length (script s) - 1"
  shows "step (fire UtteranceEnd s) = (if ms \<noteq> [] then PRACTICE_PREP else COMPLETE)"
  using assms by (simp add: fire_def rerender_keeps handleAiTurnEnd_def)

text \<open>
  A submission and a synthesized turn hand the current Mistake sequence to the closure
  that will close the turn; a closure that holds the current sequence closes the last
  turn on the accumulated mistakes.
\<close>

lemma submission_holds_mistakes:
  "\<not> hasProcessedTurn s \<Longrightarrow> currentTurn s < length (script s) \<Longrightarrow>
   analyses (processUserTurn transcript s) = analyses s @ [(transcript, currentTurn s, mistakes s)]"
  by (simp add: processUserTurn_def Let_def)

lemma speak_holds_mistakes:
  "speakTimeout s \<Longrightarrow> utterances (fire SpeakTimeout s) = utterances s @ [(currentTurn s, mistakes s)]"
  by (simp add: fire_def rerender_keeps speak_def)

lemma fresh_user_turn_closes:
  assumes "n < length (analyses s)" and "analyses s ! n = (transcript, turn, mistakes s)"
    and "\<not> turn < length (script s) - 1"
  shows "mistakes (fire (AnalysisDone n reply) s)
           = mistakes s @ snd (analyzeReadingWithAI (\<lambda>_ _. reply) transcript (line (script s ! turn)))"
    and "step (fire (AnalysisDone n reply) s)
           = (if mistakes (fire (AnalysisDone n reply) s) \<noteq> [] then PRACTICE_PREP else COMPLETE)"
  using assms by (simp_all add: last_user_turn_closes)

text \<open>
  When no analysis reports a mistake, whatever the events, no mistake is recorded and
  the step is \<open>GAME\<close> or \<open>COMPLETE\<close>; the scenario of eight correct turns ends in
  \<open>COMPLETE\<close>.
\<close>

lemma no_mistake_never_practises:
  assumes "list_all reports_no_mistake evs"
  shows "mistakes (run evs (newGame scr who recognizer voices)) = []"
    and "step (run evs (newGame scr who recognizer voices)) = GAME
          \<or> step (run evs (newGame scr who recognizer voices)) = COMPLETE"
proof -
  from assms have "all_correct (run evs (newGame scr who recognizer voices))"
    by (simp add: run_all_correct newGame_all_correct)
  then show "mistakes (run evs (newGame scr who recognizer voices)) = []"
    and "step (run evs (newGame scr who recognizer voices)) = GAME
          \<or> step (run evs (newGame scr who recognizer voices)) = COMPLETE"
    by (simp_all add: all_correct_def)
qed

lemmas shop_defs = shop_script_def synthesized_turn_def correct_turn_def all_correct_run_def
  newGame_def handler_defs Let_def trim_def isSpace_def analyzeReadingWithAI_def

lemma all_correct_run_step: "step (run all_correct_run (newGame shop_script ''Customer'' True True)) = COMPLETE"
  by (simp add: shop_defs)

text \<open>
  Claim C6. The claim fails when the last turn was submitted twice (the run of claim
  C1). The first analysis reports a missed word: the Mistake sequence is non-empty and
  the dialogue closes with \<open>PRACTICE_PREP\<close>. The second analysis resumes a
  \<open>processUserTurn\<close> whose closure still holds the empty sequence and reports nothing:
  the dialogue closes again, now with \<open>COMPLETE\<close>, and the recorded mistake is
  overwritten, although the accumulated sequence was not empty.
\<close>

theorem stale_close_out_discards_mistake:
  "mistakes (run (butlast late_analyses) demo_game) = [\<lparr>said = [], expected = ''please''\<rparr>]
   \<and> step (run (butlast late_analyses) demo_game) = PRACTICE_PREP
   \<and> analyses (run (butlast late_analyses) demo_game) = [(''yes please'', 1, [])]
   \<and> step (run late_analyses demo_game) = COMPLETE
   \<and> mistakes (run late_analyses demo_game) = []"
proof (intro conjI)
  show "mistakes (run (butlast late_analyses) demo_game) = [\<lparr>said = [], expected = ''please''\<rparr>]"
    by (simp add: late_analyses_def double_submission_def run_defs analyzeReadingWithAI_def
        wordsToPractice_please)
  show "step (run (butlast late_analyses) demo_game) = PRACTICE_PREP"
    by (simp add: late_analyses_def double_submission_def run_defs analyzeReadingWithAI_def
        wordsToPractice_please)
  show "analyses (run (butlast late_analyses) demo_game) = [(''yes please'', 1, [])]"
    by (simp add: late_analyses_def double_submission_def run_defs analyzeReadingWithAI_def
        wordsToPractice_please)
  show "step (run late_analyses demo_game) = COMPLETE"
    by (simp add: late_analyses_def double_submission_def run_defs analyzeReadingWithAI_def
        wordsToPractice_please)
  show "mistakes (run late_analyses demo_game) = []"
    by (simp add: late_analyses_def double_submission_def run_defs analyzeReadingWithAI_def
        wordsToPractice_please)
qed

section \<open>Dialogue: capture errors\<close>

lemma rerender_timers_ok:
  "(turnEffect_deps new = turnEffect_deps old \<longrightarrow> timers_ok new) \<Longrightarrow> timers_ok (rerender old new)"
  by (auto simp: timers_ok_def rerender_def Let_def turnEffect_def preparePractice_def)

lemma handle_timers_ok:
  "timers_ok s \<Longrightarrow> turnEffect_deps (handle ev s) = turnEffect_deps s \<Longrightarrow> timers_ok (handle ev s)"
  by (cases ev)
     (auto simp: timers_ok_def turnEffect_deps_def handler_defs Let_def
        split: start_outcome.splits list.splits option.splits if_splits prod.splits)

lemma fire_timers_ok: "timers_ok s \<Longrightarrow> timers_ok (fire ev s)"
  unfolding fire_def by (rule rerender_timers_ok) (simp add: handle_timers_ok)

lemma run_timers_ok: "timers_ok s \<Longrightarrow> timers_ok (run evs s)"
  by (induction evs arbitrary: s) (simp_all add: fire_timers_ok)

lemma newGame_timers_ok: "timers_ok (newGame scr who recognizer voices)"
  by (simp add: timers_ok_def newGame_def turnEffect_def)

lemma handle_blocked:
  "blocked s \<Longrightarrow> recognitionError (handle ev s) \<noteq> None \<and> \<not> startMicTimeout (handle ev s)
     \<and> micStarts (handle ev s) = micStarts s"
  by (cases ev)
     (auto simp: blocked_def handler_defs Let_def
        split: start_outcome.splits list.splits option.splits if_splits prod.splits)

lemma rerender_blocked:
  "recognitionError new \<noteq> None \<and> \<not> startMicTimeout new \<Longrightarrow> blocked (rerender old new)"
  by (auto simp: blocked_def rerender_def Let_def turnEffect_def preparePractice_def)

lemma fire_blocked: "blocked s \<Longrightarrow> blocked (fire ev s) \<and> micStarts (fire ev s) = micStarts s"
  using handle_blocked [of s ev] by (simp add: fire_def rerender_blocked rerender_keeps)

lemma run_blocked: "blocked s \<Longrightarrow> blocked (run evs s) \<and> micStarts (run evs s) = micStarts s"
proof (induction evs arbitrary: s)
  case Nil
  then show ?case by simp
next
  case (Cons ev evs)
  from Cons.prems have "blocked (fire ev s)" and "micStarts (fire ev s) = micStarts s"
    by (simp_all add: fire_blocked)
  with Cons.IH [of "fire ev s"] show ?case by simp
qed

lemma hasRecognizer_handle: "hasRecognizer (handle ev s) = hasRecognizer s"
  by (cases ev)
     (simp_all add: handler_defs Let_def
        split: start_outcome.splits list.splits option.splits prod.splits)

lemma hasRecognizer_fire: "hasRecognizer (fire ev s) = hasRecognizer s"
  by (simp add: fire_def rerender_keeps hasRecognizer_handle)

lemma hasRecognizer_run: "hasRecognizer (run evs s) = hasRecognizer s"
  by (induction evs arbitrary: s) (simp_all add: hasRecognizer_fire)

lemma benign_error:
  assumes "hasRecognizer s" and "step s = GAME"
    and "errorType \<in> set [''aborted'', ''no-speech'']"
  shows "recognitionError (fire (RecognizerError errorType) s) = recognitionError s"
    and "\<not> isRecognitionActive (fire (RecognizerError errorType) s)"
    and "currentTurn (fire (RecognizerError errorType) s) = currentTurn s"
  using assms by (auto simp: fire_def rerender_keeps handleError_def Let_def)

lemma mic_timeout_starts:
  assumes "startMicTimeout s" and "hasRecognizer s" and "\<not> isRecognitionActive s"
  shows "micStarts (fire (StartMicTimeout outcome) s) = micStarts s + 1"
    and "currentTurn (fire (StartMicTimeout outcome) s) = currentTurn s"
  using assms
  by (simp_all add: fire_def rerender_keeps startRecognition_def Let_def split: start_outcome.splits)

lemma benign_error_restart:
  assumes "hasRecognizer s" and "step s = GAME"
    and "errorType \<in> set [''aborted'', ''no-speech'']"
    and "isRecognitionActive s" and "recognitionError s = None" and "\<not> isAiSpeaking s"
    and "currentTurn s < length (script s)"
    and "Some (character (script s ! currentTurn s)) = selectedCharacter s"
  shows "startMicTimeout (fire (RecognizerError errorType) s)"
    and "micStarts (fire (StartMicTimeout outcome) (fire (RecognizerError errorType) s)) = micStarts s + 1"
    and "currentTurn (fire (StartMicTimeout outcome) (fire (RecognizerError errorType) s)) = currentTurn s"
proof -
  let ?s' = "fire (RecognizerError errorType) s"
  from assms show t: "startMicTimeout ?s'"
    by (auto simp: fire_def handleError_def Let_def rerender_def turnEffect_def turnEffect_deps_def
        captureEffect_deps_def practicePrepEffect_deps_def)
  from assms have f: "hasRecognizer ?s'" "\<not> isRecognitionActive ?s'" "micStarts ?s' = micStarts s"
    "currentTurn ?s' = currentTurn s"
    by (auto simp: fire_def rerender_keeps handleError_def Let_def)
  from mic_timeout_starts [OF t f(1,2), of outcome] f(3,4)
  show "micStarts (fire (StartMicTimeout outcome) ?s') = micStarts s + 1"
    and "currentTurn (fire (StartMicTimeout outcome) ?s') = currentTurn s"
    by simp_all
qed

lemma blocking_error:
  assumes "hasRecognizer s" and "step s = GAME" and "timers_ok s"
    and "errorType \<notin> set [''aborted'', ''no-speech'']"
  shows "recognitionError (fire (RecognizerError errorType) s)
           = Some (if errorType = ''not-allowed'' \<or> errorType = ''service-not-allowed''
                   then ''Microphone access denied.''
                   else ''Mic error: '' @ [CHR 0x22] @ errorType @ [CHR 0x22] @ ''.'')"
    and "\<not> isRecognitionActive (fire (RecognizerError errorType) s)"
    and "blocked (fire (RecognizerError errorType) s)"
proof -
  let ?s' = "fire (RecognizerError errorType) s"
  from assms show e: "recognitionError ?s'
           = Some (if errorType = ''not-allowed'' \<or> errorType = ''service-not-allowed''
                   then ''Microphone access denied.''
                   else ''Mic error: '' @ [CHR 0x22] @ errorType @ [CHR 0x22] @ ''.'')"
    and "\<not> isRecognitionActive ?s'"
    by (simp_all add: fire_def rerender_keeps handleError_def Let_def)
  from assms(3) have "timers_ok ?s'" by (rule fire_timers_ok)
  with e show "blocked ?s'" by (simp add: timers_ok_def blocked_def)
qed

text \<open>
  Claim C8. While the dialogue recognizer is attached, an error of kind \<open>aborted\<close> or
  \<open>no-speech\<close> leaves \<open>recognitionError\<close> as it was, marks the capture as stopped and keeps
  the turn; if the capture was running for the learner's turn with no error shown, the
  turn effect arms its timer again and the timer starts the microphone for the same
  turn. Any other kind, in any state the component can reach from the start of the
  dialogue, stores an error message and marks the capture as stopped; whatever happens
  afterwards an error stays stored and \<open>speechRecognizer.start()\<close> is never called again.
\<close>

theorem capture_error_policy:
  "(hasRecognizer s \<and> step s = GAME \<and> errorType \<in> set [''aborted'', ''no-speech'']
     \<longrightarrow> recognitionError (fire (RecognizerError errorType) s) = recognitionError s
       \<and> \<not> isRecognitionActive (fire (RecognizerError errorType) s)
       \<and> currentTurn (fire (RecognizerError errorType) s) = currentTurn s
       \<and> (isRecognitionActive s \<and> recognitionError s = None \<and> \<not> isAiSpeaking s
            \<and> currentTurn s < length (script s)
            \<and> Some (character (script s ! currentTurn s)) = selectedCharacter s
           \<longrightarrow> startMicTimeout (fire (RecognizerError errorType) s)
             \<and> micStarts (fire (StartMicTimeout outcome) (fire (RecognizerError errorType) s))
                 = micStarts s + 1
             \<and> currentTurn (fire (StartMicTimeout outcome) (fire (RecognizerError errorType) s))
                 = currentTurn s))
   \<and> (s = run before (newGame scr who True voices) \<and> step s = GAME
       \<and> errorType \<notin> set [''aborted'', ''no-speech'']
     \<longrightarrow> recognitionError (fire (RecognizerError errorType) s)
           = Some (if errorType = ''not-allowed'' \<or> errorType = ''service-not-allowed''
                   then ''Microphone access denied.''
                   else ''Mic error: '' @ [CHR 0x22] @ errorType @ [CHR 0x22] @ ''.'')
       \<and> \<not> isRecognitionActive (fire (RecognizerError errorType) s)
       \<and> (\<forall>after. recognitionError (run after (fire (RecognizerError errorType) s)) \<noteq> None
             \<and> micStarts (run after (fire (RecognizerError errorType) s))
                 = micStarts (fire (RecognizerError errorType) s)))"
proof (intro conjI impI; (elim conjE)?)
  assume b: "hasRecognizer s" "step s = GAME" "errorType \<in> set [''aborted'', ''no-speech'']"
  from b show "recognitionError (fire (RecognizerError errorType) s) = recognitionError s"
    by (rule benign_error)
  from b show "\<not> isRecognitionActive (fire (RecognizerError errorType) s)"
    by (rule benign_error)
  from b show "currentTurn (fire (RecognizerError errorType) s) = currentTurn s"
    by (rule benign_error)
  assume r: "isRecognitionActive s" "recognitionError s = None" "\<not> isAiSpeaking s"
    "currentTurn s < length (script s)"
    "Some (character (script s ! currentTurn s)) = selectedCharacter s"
  from b r show "startMicTimeout (fire (RecognizerError errorType) s)"
    by (rule benign_error_restart)
  from b r show "micStarts (fire (StartMicTimeout outcome) (fire (RecognizerError errorType) s))
                 = micStarts s + 1"
    by (rule benign_error_restart)
  from b r show "currentTurn (fire (StartMicTimeout outcome) (fire (RecognizerError errorType) s))
                 = currentTurn s"
    by (rule benign_error_restart)
next
  assume e: "s = run before (newGame scr who True voices)" "step s = GAME"
    "errorType \<notin> set [''aborted'', ''no-speech'']"
  from e(1) have h: "hasRecognizer s"
    by (simp add: hasRecognizer_run newGame_def turnEffect_def)
  from e(1) have t: "timers_ok s"
    by (simp add: run_timers_ok newGame_timers_ok)
  from h e(2) t e(3)
  show "recognitionError (fire (RecognizerError errorType) s)
           = Some (if errorType = ''not-allowed'' \<or> errorType = ''service-not-allowed''
                   then ''Microphone access denied.''
                   else ''Mic error: '' @ [CHR 0x22] @ errorType @ [CHR 0x22] @ ''.'')"
    by (rule blocking_error)
  from h e(2) t e(3) show "\<not> isRecognitionActive (fire (RecognizerError errorType) s)"
    by (rule blocking_error)
  from h e(2) t e(3) have "blocked (fire (RecognizerError errorType) s)"
    by (rule blocking_error)
  then have "\<And>after. blocked (run after (fire (RecognizerError errorType) s))
      \<and> micStarts (run after (fire (RecognizerError errorType) s))
          = micStarts (fire (RecognizerError errorType) s)"
    by (rule run_blocked)
  then show "\<forall>after. recognitionError (run after (fire (RecognizerError errorType) s)) \<noteq> None
             \<and> micStarts (run after (fire (RecognizerError errorType) s))
                 = micStarts (fire (RecognizerError errorType) s)"
    by (simp add: blocked_def)
qed

lemma listening_fields:
  "hasRecognizer listening" "step listening = GAME" "isRecognitionActive listening"
  "recognitionError listening = None" "\<not> isAiSpeaking listening" "currentTurn listening = 1"
  "script listening = demo_script" "selectedCharacter listening = Some ''Customer''"
  "micStarts listening = 1"
  by (simp_all add: listening_def run_defs)

text \<open>
  The claim at the listening demonstration state: \<open>no-speech\<close> shows no error and the
  microphone is started a second time for turn 1; \<open>not-allowed\<close> shows
  \<open>Microphone access denied.\<close>, and later timers and recognizer events start nothing.
\<close>

theorem capture_error_policy_witness:
  "recognitionError (fire (RecognizerError ''no-speech'') listening) = None
   \<and> \<not> isRecognitionActive (fire (RecognizerError ''no-speech'') listening)
   \<and> startMicTimeout (fire (RecognizerError ''no-speech'') listening)
   \<and> micStarts (fire (StartMicTimeout StartOk) (fire (RecognizerError ''no-speech'') listening)) = 2
   \<and> currentTurn (fire (StartMicTimeout StartOk) (fire (RecognizerError ''no-speech'') listening)) = 1
   \<and> recognitionError (fire (RecognizerError ''not-allowed'') listening)
       = Some ''Microphone access denied.''
   \<and> \<not> isRecognitionActive (fire (RecognizerError ''not-allowed'') listening)
   \<and> recognitionError
        (run [StartMicTimeout StartOk, RecognizerEnd, StartMicTimeout StartOk, SpeakTimeout]
           (fire (RecognizerError ''not-allowed'') listening)) \<noteq> None
   \<and> micStarts
        (run [StartMicTimeout StartOk, RecognizerEnd, StartMicTimeout StartOk, SpeakTimeout]
           (fire (RecognizerError ''not-allowed'') listening)) = 1"
proof -
  let ?b = "fire (RecognizerError ''no-speech'') listening"
  let ?d = "fire (RecognizerError ''not-allowed'') listening"
  let ?after = "[StartMicTimeout StartOk, RecognizerEnd, StartMicTimeout StartOk, SpeakTimeout]"
  have turn: "currentTurn listening < length (script listening)"
    "Some (character (script listening ! currentTurn listening)) = selectedCharacter listening"
    by (simp_all add: listening_fields demo_script_def)
  have origin: "listening
      = run [SpeakTimeout, UtteranceStart, UtteranceEnd, StartMicTimeout StartOk, RecognizerStart]
          (newGame demo_script ''Customer'' True True)"
    by (simp only: listening_def demo_game_def)
  have kinds: "''no-speech'' \<in> set [''aborted'', ''no-speech'']"
    "''not-allowed'' \<notin> set [''aborted'', ''no-speech'']"
    by simp_all
  note benign = capture_error_policy
    [where s = listening and errorType = "''no-speech''" and outcome = StartOk]
  note denied = capture_error_policy
    [where s = listening and errorType = "''not-allowed''"
       and before = "[SpeakTimeout, UtteranceStart, UtteranceEnd, StartMicTimeout StartOk, RecognizerStart]"
       and scr = demo_script and who = "''Customer''" and voices = True]
  from benign kinds(1) turn listening_fields(1-5)
  have "recognitionError ?b = recognitionError listening" "\<not> isRecognitionActive ?b"
    "startMicTimeout ?b"
    "micStarts (fire (StartMicTimeout StartOk) ?b) = micStarts listening + 1"
    "currentTurn (fire (StartMicTimeout StartOk) ?b) = currentTurn listening"
    by blast+
  then have b: "recognitionError ?b = None" "\<not> isRecognitionActive ?b" "startMicTimeout ?b"
    "micStarts (fire (StartMicTimeout StartOk) ?b) = 2"
    "currentTurn (fire (StartMicTimeout StartOk) ?b) = 1"
    by (simp_all add: listening_fields)
  from denied origin kinds(2) listening_fields(2)
  have d0: "recognitionError ?d
           = Some (if ''not-allowed'' = ''not-allowed'' \<or> ''not-allowed'' = ''service-not-allowed''
                   then ''Microphone access denied.''
                   else ''Mic error: '' @ [CHR 0x22] @ ''not-allowed'' @ [CHR 0x22] @ ''.'')"
    "\<not> isRecognitionActive ?d"
    "\<forall>after. recognitionError (run after ?d) \<noteq> None \<and> micStarts (run after ?d) = micStarts ?d"
    by blast+
  from d0(1) have d1: "recognitionError ?d = Some ''Microphone access denied.''"
    by simp
  have "micStarts ?d = 1"
    by (simp add: fire_def rerender_keeps handleError_def Let_def listening_fields)
  moreover from d0(3) have "recognitionError (run ?after ?d) \<noteq> None"
    "micStarts (run ?after ?d) = micStarts ?d"
    by blast+
  ultimately have d2: "recognitionError (run ?after ?d) \<noteq> None" "micStarts (run ?after ?d) = 1"
    by (simp_all del: run.simps)
  from b d1 d0(2) d2 show ?thesis by (intro conjI)
qed

end
